theory Spec2Isabelle
  imports Main "HOL-Library.AList"
begin

section \<open>Strings as the mapper uses them\<close>

text \<open>
  Strings are lists of 8-bit characters and are read as ASCII text: \<open>toUpperCase\<close> and
  \<open>toLowerCase\<close> change the letters a-z and A-Z only. Path templates, tags and schema
  names outside ASCII are outside this model.
\<close>

definition lowerLetters :: string where
  "lowerLetters = ''abcdefghijklmnopqrstuvwxyz''"

definition upperLetters :: string where
  "upperLetters = ''ABCDEFGHIJKLMNOPQRSTUVWXYZ''"

definition digits :: string where
  "digits = ''0123456789''"

definition toUpperChar :: "char \<Rightarrow> char" where
  "toUpperChar c = (case map_of (zip lowerLetters upperLetters) c of Some u \<Rightarrow> u | None \<Rightarrow> c)"

definition toLowerChar :: "char \<Rightarrow> char" where
  "toLowerChar c = (case map_of (zip upperLetters lowerLetters) c of Some l \<Rightarrow> l | None \<Rightarrow> c)"

definition toUpperCase :: "string \<Rightarrow> string" where
  "toUpperCase s = map toUpperChar s"

definition toLowerCase :: "string \<Rightarrow> string" where
  "toLowerCase s = map toLowerChar s"

text \<open>\<^verbatim>\<open>str.split(sep)\<close> for a one-character separator: never the empty list.\<close>

fun split :: "char \<Rightarrow> string \<Rightarrow> string list" where
  "split sep [] = [[]]"
| "split sep (c # cs) =
     (if c = sep then [] # split sep cs
      else (case split sep cs of
              [] \<Rightarrow> [[c]]
            | s # ss \<Rightarrow> (c # s) # ss))"

definition startsWith :: "string \<Rightarrow> char \<Rightarrow> bool" where
  "startsWith s c = (case s of [] \<Rightarrow> False | d # _ \<Rightarrow> d = c)"

definition endsWith :: "string \<Rightarrow> char \<Rightarrow> bool" where
  "endsWith s c = (case rev s of [] \<Rightarrow> False | d # _ \<Rightarrow> d = c)"

text \<open>\<^verbatim>\<open>segment.slice(1, -1)\<close>: without the first and the last character.\<close>

definition slice_1_m1 :: "string \<Rightarrow> string" where
  "slice_1_m1 s = butlast (drop 1 s)"

text \<open>The dot of a regular expression matches every character but a line terminator.\<close>

definition dotMatches :: "char \<Rightarrow> bool" where
  "dotMatches c = (c \<noteq> CHR 0x0A \<and> c \<noteq> CHR 0x0D)"

section \<open>SwaggerMapper: naming\<close>

text \<open>
  \<^verbatim>\<open>str.replace(/[-_](.)/g, (_, char) => char.toUpperCase())\<close>: matches are found
  from the left and do not overlap; a hyphen or underscore with nothing (or a line
  terminator) after it stays.
\<close>

fun toCamelCase :: "string \<Rightarrow> string" where
  "toCamelCase (c # d # rest) =
     (if (c = CHR ''-'' \<or> c = CHR ''_'') \<and> dotMatches d
      then toUpperChar d # toCamelCase rest
      else c # toCamelCase (d # rest))"
| "toCamelCase cs = cs"

text \<open>\<^verbatim>\<open>str.charAt(0).toUpperCase() + str.slice(1)\<close>\<close>

definition capitalize :: "string \<Rightarrow> string" where
  "capitalize str = toUpperCase (take 1 str) @ drop 1 str"

definition pathToFunctionName :: "string \<Rightarrow> string \<Rightarrow> string" where
  "pathToFunctionName path method =
     (let segments =
            map (\<lambda>segment.
                   if startsWith segment CHR ''{'' \<and> endsWith segment CHR ''}''
                   then ''By'' @ capitalize (toCamelCase (slice_1_m1 segment))
                   else toCamelCase segment)
                (filter (\<lambda>s. length s > 0) (split CHR ''/'' path));
          methodPrefix = toLowerCase method;
          functionName = concat (map capitalize segments)
      in methodPrefix @ functionName)"

text \<open>
  \<^verbatim>\<open>tag.split(/[\s-_]+/)\<close>: the separators are maximal runs of white space, hyphens
  and underscores; a run at either end leaves an empty word there.
\<close>

definition isTagSeparator :: "char \<Rightarrow> bool" where
  "isTagSeparator c = (c \<in> set [CHR '' '', CHR 0x09, CHR 0x0A, CHR 0x0B, CHR 0x0C, CHR 0x0D,
                                 CHR ''-'', CHR ''_''])"

function splitRuns :: "(char \<Rightarrow> bool) \<Rightarrow> string \<Rightarrow> string list" where
  "splitRuns sep [] = [[]]"
| "splitRuns sep (c # cs) =
     (if sep c then [] # splitRuns sep (dropWhile sep cs)
      else (case splitRuns sep cs of
              [] \<Rightarrow> [[c]]
            | s # ss \<Rightarrow> (c # s) # ss))"
  by pat_completeness auto
termination
  by (relation "measure (\<lambda>(sep, s). length s)") (auto simp: le_imp_less_Suc length_dropWhile_le)

definition tagToModuleName :: "string \<Rightarrow> string" where
  "tagToModuleName tag = concat (map capitalize (splitRuns isTagSeparator tag))"

definition getTagFromPath :: "string \<Rightarrow> string" where
  "getTagFromPath path =
     (let segments = filter (\<lambda>s. length s > 0) (split CHR ''/'' path)
      in case segments of
           [] \<Rightarrow> ''Default''
         | seg # _ \<Rightarrow>
             (let firstSegment = filter (\<lambda>c. c \<noteq> CHR ''{'' \<and> c \<noteq> CHR ''}'') seg
              in capitalize firstSegment))"

section \<open>The API document\<close>

text \<open>
  The document is JSON of the OpenAPI shape: its schema definitions, path items,
  operations, parameters, request bodies and responses are objects, never \<^verbatim>\<open>null\<close>
  where an object is read. An absent field is \<open>None\<close>.

  A schema node of the document, with the three fields the mapper and the generator read:
  \<^verbatim>\<open>$ref\<close>, \<^verbatim>\<open>type\<close> and \<^verbatim>\<open>items\<close>.
\<close>

datatype schema =
  Schema (schema_ref: "string option") (schema_type: "string option") (schema_items: "schema option")

text \<open>
  An object of the document is an association list in the order \<^verbatim>\<open>Object.entries\<close>
  enumerates it; \<open>map_of\<close> is the lookup by key. The value stored for a media type is the
  \<^verbatim>\<open>schema\<close> field of its media-type object.
\<close>

type_synonym content = "(string \<times> schema option) list"

record ParameterObject =
  po_name :: string
  po_in :: string
  po_required :: "bool option"
  po_schema :: "schema option"
  po_description :: "string option"

record RequestBodyObject =
  rbo_required :: "bool option"
  rbo_content :: "content option"

record ResponseObject =
  ro_description :: "string option"
  ro_content :: "content option"

record OperationObject =
  op_operationId :: "string option"
  op_summary :: "string option"
  op_description :: "string option"
  op_parameters :: "ParameterObject list option"
  op_requestBody :: "RequestBodyObject option"
  op_responses :: "(string \<times> ResponseObject) list option"
  op_tags :: "string list option"

type_synonym PathItemObject = "(string \<times> OperationObject) list"

record RawSchema =
  rs_properties :: "(string \<times> schema) list option"
  rs_required :: "string list option"

record ComponentsObject =
  co_schemas :: "(string \<times> RawSchema) list option"

record ApiDocument =
  api_paths :: "(string \<times> PathItemObject option) list option"
  api_components :: "ComponentsObject option"
  api_definitions :: "(string \<times> RawSchema) list option"

section \<open>Metadata records (types.ts)\<close>

record ParameterMetadata =
  pm_name :: string
  pm_in :: string
  pm_required :: bool
  pm_type :: string
  pm_description :: "string option"

record RequestBodyMetadata =
  rbm_required :: bool
  rbm_contentType :: string
  rbm_schema :: string

record ResponseMetadata =
  rm_statusCode :: string
  rm_description :: "string option"
  rm_schema :: "string option"

record EndpointMetadata =
  ep_operationId :: string
  ep_functionName :: string
  ep_method :: string
  ep_path :: string
  ep_summary :: "string option"
  ep_description :: "string option"
  ep_parameters :: "ParameterMetadata list"
  ep_requestBody :: "RequestBodyMetadata option"
  ep_responses :: "ResponseMetadata list"
  ep_tags :: "string list"

record SchemaMetadata =
  sm_name :: string
  sm_properties :: "(string \<times> schema) list"
  sm_required :: "string list option"

record ModuleMetadata =
  mm_moduleName :: string
  mm_tag :: string
  mm_endpoints :: "EndpointMetadata list"
  mm_schemas :: "SchemaMetadata list"

text \<open>
  A \<^verbatim>\<open>Map\<close> keeps its keys in insertion order: \<open>AList.update\<close> is \<^verbatim>\<open>set\<close>
  (a new key goes to the end, an old key keeps its place), \<open>map_of\<close> is \<^verbatim>\<open>get\<close>.
\<close>

type_synonym SchemaCatalog = "(string \<times> SchemaMetadata) list"

section \<open>SwaggerMapper: type names\<close>

text \<open>\<^verbatim>\<open>schema.$ref.split('/').pop() || 'any'\<close>\<close>

definition refName :: "string \<Rightarrow> string" where
  "refName r = (let seg = last (split CHR ''/'' r) in if seg = [] then ''any'' else seg)"

definition typeMap :: "(string \<times> string) list" where
  "typeMap = [(''string'', ''string''), (''number'', ''number''), (''integer'', ''number''),
              (''boolean'', ''boolean''), (''array'', ''any[]''), (''object'', ''any'')]"

text \<open>
  The table is looked up by the declared type; a type that names a property every
  JavaScript object inherits (such as \<open>constructor\<close>) is outside this model.
  The empty string is falsy, so an empty \<^verbatim>\<open>$ref\<close> is no reference.
\<close>

definition truthyRef :: "schema \<Rightarrow> string option" where
  "truthyRef s = (case schema_ref s of None \<Rightarrow> None | Some r \<Rightarrow> if r = [] then None else Some r)"

definition getTypeFromSchema :: "schema option \<Rightarrow> string" where
  "getTypeFromSchema schema =
     (case schema of
        None \<Rightarrow> ''any''
      | Some s \<Rightarrow>
          (case truthyRef s of
             Some r \<Rightarrow> refName r
           | None \<Rightarrow>
               (case schema_type s of
                  None \<Rightarrow> ''any''
                | Some t \<Rightarrow> (case map_of typeMap t of None \<Rightarrow> ''any'' | Some n \<Rightarrow> n))))"

fun getSchemaName :: "schema \<Rightarrow> string" where
  "getSchemaName (Schema ref ty items) =
     (case truthyRef (Schema ref ty items) of
        Some r \<Rightarrow> refName r
      | None \<Rightarrow>
          (case items of
             Some it \<Rightarrow>
               (if ty = Some ''array'' then getSchemaName it @ ''[]''
                else getTypeFromSchema (Some (Schema ref ty items)))
           | None \<Rightarrow> getTypeFromSchema (Some (Schema ref ty items))))"

section \<open>SwaggerMapper: the schema catalog\<close>

text \<open>
  The mapper keeps its catalog between calls, so \<open>extractSchemas\<close> takes the catalog it
  finds and returns the one it leaves. A new mapper starts from the empty catalog.
\<close>

definition extractSchemas :: "SchemaCatalog \<Rightarrow> ApiDocument \<Rightarrow> SchemaCatalog" where
  "extractSchemas schemas api =
     (let schemas1 =
            (case api_components api of
               None \<Rightarrow> schemas
             | Some components \<Rightarrow>
                 (case co_schemas components of
                    None \<Rightarrow> schemas
                  | Some entries \<Rightarrow>
                      foldl (\<lambda>acc (name, schema).
                               AList.update name
                                 \<lparr> sm_name = name,
                                   sm_properties = (case rs_properties schema of None \<Rightarrow> [] | Some ps \<Rightarrow> ps),
                                   sm_required = rs_required schema \<rparr> acc)
                            schemas entries))
      in case api_definitions api of
           None \<Rightarrow> schemas1
         | Some entries \<Rightarrow>
             foldl (\<lambda>acc (name, schema).
                      AList.update name
                        \<lparr> sm_name = name,
                          sm_properties = (case rs_properties schema of None \<Rightarrow> [] | Some ps \<Rightarrow> ps),
                          sm_required = rs_required schema \<rparr> acc)
                   schemas1 entries)"

section \<open>SwaggerMapper: endpoints\<close>

definition mapParameters :: "ParameterObject list \<Rightarrow> ParameterMetadata list" where
  "mapParameters parameters =
     map (\<lambda>param.
            \<lparr> pm_name = po_name param,
              pm_in = po_in param,
              pm_required = (case po_required param of None \<Rightarrow> False | Some b \<Rightarrow> b),
              pm_type = getTypeFromSchema (po_schema param),
              pm_description = po_description param \<rparr>)
         parameters"

definition mapRequestBody :: "RequestBodyObject option \<Rightarrow> RequestBodyMetadata option" where
  "mapRequestBody requestBody =
     (case requestBody of
        None \<Rightarrow> None
      | Some rb \<Rightarrow>
          (let content = (case rbo_content rb of None \<Rightarrow> [] | Some c \<Rightarrow> c);
               contentType =
                 (case content of
                    [] \<Rightarrow> ''application/json''
                  | (k, _) # _ \<Rightarrow> if k = [] then ''application/json'' else k);
               schema = (case map_of content contentType of None \<Rightarrow> None | Some s \<Rightarrow> s)
           in Some \<lparr> rbm_required = (case rbo_required rb of None \<Rightarrow> False | Some b \<Rightarrow> b),
                     rbm_contentType = contentType,
                     rbm_schema = (case schema of None \<Rightarrow> ''any'' | Some s \<Rightarrow> getSchemaName s) \<rparr>))"

definition getResponseSchema :: "ResponseObject \<Rightarrow> string option" where
  "getResponseSchema response =
     (case ro_content response of
        None \<Rightarrow> None
      | Some rc \<Rightarrow>
          (let content =
                 (case map_of rc ''application/json'' of
                    Some m \<Rightarrow> Some m
                  | None \<Rightarrow> (case rc of [] \<Rightarrow> None | (k, _) # _ \<Rightarrow> map_of rc k))
           in case content of
                None \<Rightarrow> None
              | Some None \<Rightarrow> None
              | Some (Some s) \<Rightarrow> Some (getSchemaName s)))"

definition mapResponses :: "(string \<times> ResponseObject) list \<Rightarrow> ResponseMetadata list" where
  "mapResponses responses =
     map (\<lambda>(statusCode, response).
            \<lparr> rm_statusCode = statusCode,
              rm_description = ro_description response,
              rm_schema = getResponseSchema response \<rparr>)
         responses"

definition mapEndpoint :: "string \<Rightarrow> string \<Rightarrow> OperationObject \<Rightarrow> EndpointMetadata" where
  "mapEndpoint path method operation =
     (let functionName = pathToFunctionName path method
      in \<lparr> ep_operationId =
             (case op_operationId operation of
                None \<Rightarrow> functionName
              | Some i \<Rightarrow> if i = [] then functionName else i),
           ep_functionName = functionName,
           ep_method = method,
           ep_path = path,
           ep_summary = op_summary operation,
           ep_description = op_description operation,
           ep_parameters =
             mapParameters (case op_parameters operation of None \<Rightarrow> [] | Some ps \<Rightarrow> ps),
           ep_requestBody = mapRequestBody (op_requestBody operation),
           ep_responses =
             mapResponses (case op_responses operation of None \<Rightarrow> [] | Some rs \<Rightarrow> rs),
           ep_tags = (case op_tags operation of None \<Rightarrow> [] | Some ts \<Rightarrow> ts) \<rparr>)"

section \<open>SwaggerMapper: schemas of a module\<close>

text \<open>
  \<^verbatim>\<open>str.replace(pattern, replacement)\<close> with a string pattern replaces the first
  occurrence only.
\<close>

fun replaceFirst :: "string \<Rightarrow> string \<Rightarrow> string \<Rightarrow> string" where
  "replaceFirst pat rep [] = (if pat = [] then rep else [])"
| "replaceFirst pat rep (c # cs) =
     (if take (length pat) (c # cs) = pat then rep @ drop (length pat) (c # cs)
      else c # replaceFirst pat rep cs)"

text \<open>\<^verbatim>\<open>Set.add\<close>: a new element goes to the end, an old one keeps its place.\<close>

definition setAdd :: "'a list \<Rightarrow> 'a \<Rightarrow> 'a list" where
  "setAdd xs x = (if x \<in> set xs then xs else xs @ [x])"

text \<open>
  What the mapper does with one schema field of a request body or a response: an empty
  string is falsy and skipped.
\<close>

definition addSchemaName :: "SchemaCatalog \<Rightarrow> string list \<Rightarrow> string \<Rightarrow> string list" where
  "addSchemaName schemas schemaNames schema =
     (if schema = [] then schemaNames
      else (let baseName = replaceFirst ''[]'' [] schema
            in if map_of schemas baseName \<noteq> None then setAdd schemaNames baseName
               else schemaNames))"

definition getSchemasForModule :: "SchemaCatalog \<Rightarrow> EndpointMetadata list \<Rightarrow> SchemaMetadata list" where
  "getSchemasForModule schemas endpoints =
     (let schemaNames =
            foldl (\<lambda>names endpoint.
                     (let names1 =
                            (case ep_requestBody endpoint of
                               None \<Rightarrow> names
                             | Some rb \<Rightarrow> addSchemaName schemas names (rbm_schema rb))
                      in foldl (\<lambda>ns response.
                                  (case rm_schema response of
                                     None \<Rightarrow> ns
                                   | Some s \<Rightarrow> addSchemaName schemas ns s))
                               names1 (ep_responses endpoint)))
                  [] endpoints
      in List.map_filter (map_of schemas) schemaNames)"

section \<open>SwaggerMapper: grouping into modules\<close>

definition httpMethods :: "string list" where
  "httpMethods = [''get'', ''post'', ''put'', ''delete'', ''patch'']"

type_synonym ModuleMap = "(string \<times> EndpointMetadata list) list"

text \<open>
  \<^verbatim>\<open>if (!moduleMap.has(tag)) moduleMap.set(tag, []); moduleMap.get(tag).push(endpoint)\<close>
\<close>

definition pushEndpoint :: "ModuleMap \<Rightarrow> string \<Rightarrow> EndpointMetadata \<Rightarrow> ModuleMap" where
  "pushEndpoint moduleMap tag endpoint =
     (let moduleMap1 = (if map_of moduleMap tag = None then AList.update tag [] moduleMap
                        else moduleMap)
      in AList.map_entry tag (\<lambda>eps. eps @ [endpoint]) moduleMap1)"

text \<open>
  The body of \<^verbatim>\<open>tags.forEach\<close>. An absent \<^verbatim>\<open>selectedTags\<close> is \<open>None\<close>; an array, also
  the empty one, is truthy.
\<close>

definition addToTag ::
  "string list option \<Rightarrow> EndpointMetadata \<Rightarrow> ModuleMap \<Rightarrow> string \<Rightarrow> ModuleMap" where
  "addToTag selectedTags endpoint moduleMap tag =
     (case selectedTags of
        None \<Rightarrow> pushEndpoint moduleMap tag endpoint
      | Some sel \<Rightarrow>
          if tag \<in> set sel then pushEndpoint moduleMap tag endpoint else moduleMap)"

text \<open>The body of the loop over the five methods of one path item.\<close>

definition addMethod ::
  "string list option \<Rightarrow> string \<Rightarrow> PathItemObject \<Rightarrow> ModuleMap \<Rightarrow> string \<Rightarrow> ModuleMap" where
  "addMethod selectedTags path pathItem moduleMap method =
     (case map_of pathItem method of
        None \<Rightarrow> moduleMap
      | Some operation \<Rightarrow>
          (let endpoint = mapEndpoint path (toUpperCase method) operation;
               tags = (if length (ep_tags endpoint) > 0 then ep_tags endpoint
                       else [getTagFromPath path])
           in foldl (addToTag selectedTags endpoint) moduleMap tags))"

text \<open>The body of the loop over the entries of \<^verbatim>\<open>api.paths\<close>.\<close>

definition addPath ::
  "string list option \<Rightarrow> ModuleMap \<Rightarrow> string \<times> PathItemObject option \<Rightarrow> ModuleMap" where
  "addPath selectedTags moduleMap entry =
     (case entry of
        (path, None) \<Rightarrow> moduleMap
      | (path, Some pathItem) \<Rightarrow>
          foldl (addMethod selectedTags path pathItem) moduleMap httpMethods)"

definition mapToModules ::
  "SchemaCatalog \<Rightarrow> ApiDocument \<Rightarrow> string list option \<Rightarrow> ModuleMetadata list \<times> SchemaCatalog" where
  "mapToModules schemas0 api selectedTags =
     (let schemas = extractSchemas schemas0 api;
          moduleMap =
            (case api_paths api of
               None \<Rightarrow> []
             | Some paths \<Rightarrow> foldl (addPath selectedTags) [] paths);
          modules =
            map (\<lambda>(tag, endpoints).
                   \<lparr> mm_moduleName = tagToModuleName tag,
                     mm_tag = tag,
                     mm_endpoints = endpoints,
                     mm_schemas = getSchemasForModule schemas endpoints \<rparr>)
                moduleMap
      in (modules, schemas))"

section \<open>CodeGenerator: the types file\<close>

record WizardAnswers =
  wa_schemaSource :: string
  wa_library :: string
  wa_language :: string
  wa_outputDirectory :: string
  wa_selectionMode :: string
  wa_selectedTags :: "string list option"

record GenerationContext =
  gc_answers :: WizardAnswers
  gc_modules :: "ModuleMetadata list"
  gc_schemas :: SchemaCatalog

definition generatorTypeMap :: "(string \<times> string) list" where
  "generatorTypeMap = [(''string'', ''string''), (''number'', ''number''), (''integer'', ''number''),
                       (''boolean'', ''boolean''), (''object'', ''any''), (''array'', ''any[]'')]"

fun getTypeScriptType :: "schema option \<Rightarrow> string" where
  "getTypeScriptType None = ''any''"
| "getTypeScriptType (Some (Schema ref ty items)) =
     (if ty = Some ''array''
      then (case items of None \<Rightarrow> ''any'' | Some it \<Rightarrow> getTypeScriptType (Some it)) @ ''[]''
      else (case ty of
              None \<Rightarrow> ''any''
            | Some t \<Rightarrow> (case map_of generatorTypeMap t of None \<Rightarrow> ''any'' | Some n \<Rightarrow> n)))"

definition getFileExtension :: "string \<Rightarrow> string" where
  "getFileExtension language = (if language = ''typescript'' then ''.ts'' else ''.js'')"

text \<open>
  The body of the loop over the properties of one schema:
  \<^verbatim>\<open>schema.required?.includes(propName)\<close> is falsy when \<^verbatim>\<open>required\<close> is absent.
\<close>

definition addProperty :: "SchemaMetadata \<Rightarrow> string \<Rightarrow> string \<times> schema \<Rightarrow> string" where
  "addProperty schema typesContent prop =
     (case prop of (propName, propValue) \<Rightarrow>
        (let isRequired = (case sm_required schema of None \<Rightarrow> False | Some req \<Rightarrow> propName \<in> set req);
             optional = (if isRequired then [] else ''?'');
             type = getTypeScriptType (Some propValue)
         in typesContent @ ''  '' @ propName @ optional @ '': '' @ type @ [CHR '';'', CHR 0x0A]))"

text \<open>The text handed to the formatter, which is outside this model.\<close>

definition generateTypesContent :: "SchemaCatalog \<Rightarrow> string" where
  "generateTypesContent schemas =
     foldl (\<lambda>typesContent (name, schema).
              foldl (addProperty schema)
                    (typesContent @ ''export interface '' @ name @ [CHR '' '', CHR ''{'', CHR 0x0A])
                    (sm_properties schema)
              @ [CHR ''}'', CHR 0x0A, CHR 0x0A])
           (''// Auto-generated type definitions'' @ [CHR 0x0A, CHR 0x0A]) schemas"

text \<open>File name and unformatted text of the types file.\<close>

definition generateTypesFile :: "GenerationContext \<Rightarrow> string \<times> string" where
  "generateTypesFile context =
     (let ext = getFileExtension (wa_language (gc_answers context))
      in (''types'' @ ext, generateTypesContent (gc_schemas context)))"

text \<open>The step of \<^verbatim>\<open>generate\<close> that writes the types file, or writes nothing.\<close>

definition generateTypes :: "GenerationContext \<Rightarrow> (string \<times> string) option" where
  "generateTypes context =
     (if wa_language (gc_answers context) = ''typescript'' then Some (generateTypesFile context)
      else None)"

section \<open>TemplateEngine\<close>

text \<open>
  A compiled template is a function of the module; \<open>None\<close> is an exception raised while
  it runs. \<open>UnknownLibrary\<close> is the error
  \<^verbatim>\<open>Template not found for library: ...\<close> with its message.
\<close>

datatype error = UnknownLibrary string | RenderError | ReadError string

type_synonym template = "ModuleMetadata \<Rightarrow> string option"

type_synonym Templates = "(string \<times> template) list"

definition templateFiles :: "(string \<times> string) list" where
  "templateFiles = [(''zustand'', ''zustand.hbs''), (''redux-toolkit'', ''redux-toolkit.hbs''),
                    (''axios-hooks'', ''axios-hooks.hbs''), (''fetch-api'', ''fetch-api.hbs'')]"

text \<open>
  The loop of \<^verbatim>\<open>loadTemplates\<close>. Reading a file and compiling its text are parameters;
  a file that cannot be read ends the loop with an error.
\<close>

fun loadFrom ::
  "(string \<Rightarrow> string option) \<Rightarrow> (string \<Rightarrow> template) \<Rightarrow> Templates \<Rightarrow> (string \<times> string) list
     \<Rightarrow> error + Templates" where
  "loadFrom readFile compile templates [] = Inr templates"
| "loadFrom readFile compile templates ((library, filename) # rest) =
     (case readFile filename of
        None \<Rightarrow> Inl (ReadError filename)
      | Some templateContent \<Rightarrow>
          loadFrom readFile compile (AList.update library (compile templateContent) templates) rest)"

definition loadTemplates ::
  "(string \<Rightarrow> string option) \<Rightarrow> (string \<Rightarrow> template) \<Rightarrow> Templates \<Rightarrow> error + Templates" where
  "loadTemplates readFile compile templates = loadFrom readFile compile templates templateFiles"

text \<open>
  \<open>convertToJavaScript\<close>, the chain of regular-expression replacements, is a parameter: it
  maps a string to a string and raises nothing.
\<close>

definition generateModule ::
  "Templates \<Rightarrow> (string \<Rightarrow> string) \<Rightarrow> ModuleMetadata \<Rightarrow> string \<Rightarrow> string \<Rightarrow> error + string" where
  "generateModule templates convertToJavaScript module library language =
     (case map_of templates library of
        None \<Rightarrow> Inl (UnknownLibrary (''Template not found for library: '' @ library))
      | Some template \<Rightarrow>
          (case template module of
             None \<Rightarrow> Inl RenderError
           | Some code \<Rightarrow>
               Inr (if language = ''javascript'' then convertToJavaScript code else code)))"

section \<open>The specification's notions\<close>

text \<open>
  The non-empty segments of a path, the test for a parameter segment \<open>{x}\<close>, and the
  name a segment carries: the text between the braces of a parameter segment, the segment
  itself otherwise.
\<close>

definition pathSegments :: "string \<Rightarrow> string list" where
  "pathSegments path = filter (\<lambda>s. s \<noteq> []) (split CHR ''/'' path)"

definition isParameterSegment :: "string \<Rightarrow> bool" where
  "isParameterSegment seg =
     (case seg of [] \<Rightarrow> False | c # r \<Rightarrow> c = CHR ''{'' \<and> r \<noteq> [] \<and> last r = CHR ''}'')"

definition segmentName :: "string \<Rightarrow> string" where
  "segmentName seg = (if isParameterSegment seg then butlast (tl seg) else seg)"

text \<open>
  The camelCase form of a name, as the specification words it: the name is cut at every
  hyphen and underscore, the first word stays as it is, every later word is capitalized,
  and the words are joined. It does not refer to the mapper's \<open>toCamelCase\<close>.
\<close>

definition isSeparator :: "char \<Rightarrow> bool" where
  "isSeparator c = (c = CHR ''-'' \<or> c = CHR ''_'')"

fun splitWhere :: "(char \<Rightarrow> bool) \<Rightarrow> string \<Rightarrow> string list" where
  "splitWhere p [] = [[]]"
| "splitWhere p (c # cs) =
     (if p c then [] # splitWhere p cs
      else (case splitWhere p cs of
              [] \<Rightarrow> [[c]]
            | w # ws \<Rightarrow> (c # w) # ws))"

definition camelCaseForm :: "string \<Rightarrow> string" where
  "camelCaseForm name =
     (case splitWhere isSeparator name of
        [] \<Rightarrow> []
      | w # ws \<Rightarrow> w @ concat (map capitalize ws))"

text \<open>
  The call name of the specification: the lowercase method, then for each segment in
  order \<open>By\<close> and the capitalized camelCase form of the parameter name, or the
  capitalized camelCase form of the literal segment.
\<close>

definition callToken :: "string \<Rightarrow> string" where
  "callToken seg =
     (if isParameterSegment seg then ''By'' @ capitalize (camelCaseForm (segmentName seg))
      else capitalize (camelCaseForm (segmentName seg)))"

definition specCallName :: "string \<Rightarrow> string \<Rightarrow> string" where
  "specCallName path method = toLowerCase method @ concat (map callToken (pathSegments path))"

text \<open>
  A name in which every hyphen and underscore is directly followed by a character that is
  neither a hyphen, an underscore nor a line terminator, such as \<open>order-history-items\<close>
  or \<open>user_id\<close>.
\<close>

fun boundariesFollowed :: "string \<Rightarrow> bool" where
  "boundariesFollowed [] = True"
| "boundariesFollowed (c # cs) =
     ((if isSeparator c
       then (case cs of [] \<Rightarrow> False | d # _ \<Rightarrow> \<not> isSeparator d \<and> dotMatches d)
       else True)
      \<and> boundariesFollowed cs)"

text \<open>
  The token the mapper computes for one segment, with its own \<open>toCamelCase\<close>.
\<close>

definition segmentToken :: "string \<Rightarrow> string" where
  "segmentToken seg =
     (if isParameterSegment seg then ''By'' @ capitalize (toCamelCase (butlast (tl seg)))
      else capitalize (toCamelCase seg))"

text \<open>
  Identifier-safe: a letter, underscore or dollar sign first, then letters, digits,
  underscores and dollar signs, and not a reserved word of JavaScript.
\<close>

definition isIdentifierStart :: "char \<Rightarrow> bool" where
  "isIdentifierStart c = (c \<in> set (lowerLetters @ upperLetters @ ''_$''))"

definition isIdentifierPart :: "char \<Rightarrow> bool" where
  "isIdentifierPart c = (c \<in> set (lowerLetters @ upperLetters @ digits @ ''_$''))"

definition reservedWords :: "string list" where
  "reservedWords =
     [''break'', ''case'', ''catch'', ''class'', ''const'', ''continue'', ''debugger'', ''default'',
      ''delete'', ''do'', ''else'', ''enum'', ''export'', ''extends'', ''false'', ''finally'', ''for'',
      ''function'', ''if'', ''import'', ''in'', ''instanceof'', ''new'', ''null'', ''return'', ''super'',
      ''switch'', ''this'', ''throw'', ''true'', ''try'', ''typeof'', ''var'', ''void'', ''while'',
      ''with'', ''yield'', ''let'', ''static'', ''await'']"

definition identifierSafe :: "string \<Rightarrow> bool" where
  "identifierSafe s =
     ((case s of [] \<Rightarrow> False | c # cs \<Rightarrow> isIdentifierStart c \<and> list_all isIdentifierPart cs)
      \<and> s \<notin> set reservedWords)"

text \<open>A schema node wrapped \<open>n\<close> times into an array node, and the suffix it earns.\<close>

fun nestArray :: "nat \<Rightarrow> schema \<Rightarrow> schema" where
  "nestArray 0 s = s"
| "nestArray (Suc n) s = Schema None (Some ''array'') (Some (nestArray n s))"

definition arraySuffix :: "nat \<Rightarrow> string" where
  "arraySuffix n = concat (replicate n ''[]'')"

text \<open>
  Every pair of an effective tag and its endpoint, in the order the mapper meets them:
  the declared tags of an operation, or the tag inferred from its path when it declares
  none.
\<close>

definition operationTags :: "string \<Rightarrow> OperationObject \<Rightarrow> string list" where
  "operationTags path operation =
     (case op_tags operation of
        None \<Rightarrow> [getTagFromPath path]
      | Some ts \<Rightarrow> if ts = [] then [getTagFromPath path] else ts)"

definition taggedEndpoints :: "ApiDocument \<Rightarrow> (string \<times> EndpointMetadata) list" where
  "taggedEndpoints api =
     concat (map (\<lambda>(path, item).
                    concat (map (\<lambda>method.
                                   case map_of (case item of None \<Rightarrow> [] | Some pathItem \<Rightarrow> pathItem) method of
                                     None \<Rightarrow> []
                                   | Some operation \<Rightarrow>
                                       map (\<lambda>tag. (tag, mapEndpoint path (toUpperCase method) operation))
                                           (operationTags path operation))
                                httpMethods))
                 (case api_paths api of None \<Rightarrow> [] | Some paths \<Rightarrow> paths))"

text \<open>The raw schema definitions of a document, from both containers.\<close>

definition rawDefinitions :: "ApiDocument \<Rightarrow> (string \<times> RawSchema) list" where
  "rawDefinitions api =
     (case api_components api of
        None \<Rightarrow> []
      | Some components \<Rightarrow> (case co_schemas components of None \<Rightarrow> [] | Some entries \<Rightarrow> entries))
     @ (case api_definitions api of None \<Rightarrow> [] | Some entries \<Rightarrow> entries)"

text \<open>
  One type declaration of the types file: a property carries the mark \<open>?\<close> exactly when
  its name is not among the required names of the schema.
\<close>

definition requiredNames :: "SchemaMetadata \<Rightarrow> string set" where
  "requiredNames schema = (case sm_required schema of None \<Rightarrow> {} | Some req \<Rightarrow> set req)"

definition propertyDeclaration :: "SchemaMetadata \<Rightarrow> string \<times> schema \<Rightarrow> string" where
  "propertyDeclaration schema prop =
     ''  '' @ fst prop @ (if fst prop \<in> requiredNames schema then [] else ''?'') @ '': ''
       @ getTypeScriptType (Some (snd prop)) @ [CHR '';'', CHR 0x0A]"

definition typeDeclaration :: "string \<times> SchemaMetadata \<Rightarrow> string" where
  "typeDeclaration entry =
     ''export interface '' @ fst entry @ [CHR '' '', CHR ''{'', CHR 0x0A]
       @ concat (map (propertyDeclaration (snd entry)) (sm_properties (snd entry)))
       @ [CHR ''}'', CHR 0x0A, CHR 0x0A]"

text \<open>The schema records the modules reference.\<close>

definition referencedSchemas :: "ModuleMetadata list \<Rightarrow> SchemaMetadata list" where
  "referencedSchemas modules = concat (map mm_schemas modules)"

text \<open>The record the catalog stores for one raw definition.\<close>

definition indexed :: "string \<Rightarrow> RawSchema \<Rightarrow> SchemaMetadata" where
  "indexed name raw = \<lparr> sm_name = name,
       sm_properties = (case rs_properties raw of None \<Rightarrow> [] | Some ps \<Rightarrow> ps),
       sm_required = rs_required raw \<rparr>"

text \<open>Whether a tag passes the filter: every tag when there is none.\<close>

definition tagSelected :: "string list option \<Rightarrow> string \<Rightarrow> bool" where
  "tagSelected selectedTags tag = (case selectedTags of None \<Rightarrow> True | Some sel \<Rightarrow> tag \<in> set sel)"

text \<open>Pushing a list of tagged endpoints into the module map, one after the other.\<close>

definition pushAll :: "ModuleMap \<Rightarrow> (string \<times> EndpointMetadata) list \<Rightarrow> ModuleMap" where
  "pushAll moduleMap pairs = foldl (\<lambda>acc pair. pushEndpoint acc (fst pair) (snd pair)) moduleMap pairs"

text \<open>The endpoints that carry a tag, in the order of the document.\<close>

definition endpointsTagged :: "string \<Rightarrow> (string \<times> EndpointMetadata) list \<Rightarrow> EndpointMetadata list" where
  "endpointsTagged tag pairs = map snd (filter (\<lambda>pair. fst pair = tag) pairs)"

text \<open>The module the mapper makes of one entry of its module map.\<close>

definition toModule :: "SchemaCatalog \<Rightarrow> string \<times> EndpointMetadata list \<Rightarrow> ModuleMetadata" where
  "toModule schemas entry =
     \<lparr> mm_moduleName = tagToModuleName (fst entry),
       mm_tag = fst entry,
       mm_endpoints = snd entry,
       mm_schemas = getSchemasForModule schemas (snd entry) \<rparr>"

text \<open>The tagged endpoints of one method of a path item, and of one path.\<close>

definition methodPairs :: "string \<Rightarrow> PathItemObject \<Rightarrow> string \<Rightarrow> (string \<times> EndpointMetadata) list" where
  "methodPairs path pathItem =
     (\<lambda>method.
        case map_of pathItem method of
          None \<Rightarrow> []
        | Some operation \<Rightarrow>
            map (\<lambda>tag. (tag, mapEndpoint path (toUpperCase method) operation))
                (operationTags path operation))"

definition pathPairs :: "string \<times> PathItemObject option \<Rightarrow> (string \<times> EndpointMetadata) list" where
  "pathPairs =
     (\<lambda>entry. concat (map (methodPairs (fst entry)
                                  (case snd entry of None \<Rightarrow> [] | Some pathItem \<Rightarrow> pathItem))
                             httpMethods))"

section \<open>An example document\<close>

definition refTo :: "string \<Rightarrow> schema" where
  "refTo name = Schema (Some (''#/components/schemas/'' @ name)) None None"

definition exampleOperation :: "string list option \<Rightarrow> schema option \<Rightarrow> OperationObject" where
  "exampleOperation tags responseSchema =
     \<lparr> op_operationId = None, op_summary = None, op_description = None, op_parameters = None,
       op_requestBody = None,
       op_responses = Some [(''200'', \<lparr> ro_description = None,
                                       ro_content = Some [(''application/json'', responseSchema)] \<rparr>)],
       op_tags = tags \<rparr>"

text \<open>
  Two paths and three schemas: \<open>User\<close> is referenced by \<open>GET /users/{id}\<close>, an array of
  arrays of \<open>Product\<close> by \<open>GET /products\<close>, which declares no tag, and \<open>Unused\<close> by
  nothing.
\<close>

definition exampleDocument :: ApiDocument where
  "exampleDocument =
     \<lparr> api_paths = Some
         [(''/users/{id}'',
             Some [(''get'', exampleOperation (Some [''Users'']) (Some (refTo ''User'')))]),
          (''/products'',
             Some [(''get'', exampleOperation None (Some (nestArray 2 (refTo ''Product'')))),
                   (''post'', exampleOperation (Some [''Admin'', ''Products'']) None)])],
       api_components = Some
         \<lparr> co_schemas = Some
             [(''User'', \<lparr> rs_properties = Some [(''id'', Schema None (Some ''integer'') None),
                                                 (''name'', Schema None (Some ''string'') None)],
                           rs_required = Some [''id''] \<rparr>),
              (''Product'', \<lparr> rs_properties = None, rs_required = None \<rparr>),
              (''Unused'', \<lparr> rs_properties = None, rs_required = None \<rparr>)] \<rparr>,
       api_definitions = None \<rparr>"

text \<open>One schema node in the three places where the mapper names it.\<close>

definition exampleParameter :: "schema \<Rightarrow> ParameterObject" where
  "exampleParameter node =
     \<lparr> po_name = ''ids'', po_in = ''query'', po_required = None, po_schema = Some node,
       po_description = None \<rparr>"

definition exampleRequestBody :: "schema \<Rightarrow> RequestBodyObject" where
  "exampleRequestBody node =
     \<lparr> rbo_required = None, rbo_content = Some [(''application/json'', Some node)] \<rparr>"

definition exampleResponse :: "schema \<Rightarrow> ResponseObject" where
  "exampleResponse node =
     \<lparr> ro_description = None, ro_content = Some [(''application/json'', Some node)] \<rparr>"

definition exampleContext :: "string \<Rightarrow> GenerationContext" where
  "exampleContext language =
     \<lparr> gc_answers = \<lparr> wa_schemaSource = ''./swagger.json'', wa_library = ''zustand'',
                       wa_language = language, wa_outputDirectory = ''./src/api'',
                       wa_selectionMode = ''all'', wa_selectedTags = None \<rparr>,
       gc_modules = fst (mapToModules [] exampleDocument None),
       gc_schemas = snd (mapToModules [] exampleDocument None) \<rparr>"

text \<open>Templates that print their own text, and a reader that finds every file.\<close>

definition exampleCompile :: "string \<Rightarrow> template" where
  "exampleCompile templateContent = (\<lambda>module. Some (templateContent @ '' '' @ mm_moduleName module))"

definition exampleModule :: ModuleMetadata where
  "exampleModule = \<lparr> mm_moduleName = ''Users'', mm_tag = ''Users'', mm_endpoints = [], mm_schemas = [] \<rparr>"

section \<open>Call names\<close>

lemmas char_defs = toUpperCase_def toLowerCase_def toUpperChar_def toLowerChar_def
  lowerLetters_def upperLetters_def digits_def

lemma capitalize_By: "capitalize (''By'' @ s) = ''By'' @ s"
  by (simp add: capitalize_def char_defs)

lemma endsWith_last: "endsWith s c = (s \<noteq> [] \<and> last s = c)"
  by (cases s rule: rev_cases) (simp_all add: endsWith_def)

lemma parameter_test: "(startsWith seg CHR ''{'' \<and> endsWith seg CHR ''}'') = isParameterSegment seg"
  by (cases seg) (auto simp: startsWith_def endsWith_last isParameterSegment_def)

lemma slice_1_m1_eq: "slice_1_m1 s = butlast (tl s)"
  by (simp add: slice_1_m1_def drop_Suc)

lemma capitalize_segment:
  "capitalize (if startsWith seg CHR ''{'' \<and> endsWith seg CHR ''}''
               then ''By'' @ capitalize (toCamelCase (slice_1_m1 seg))
               else toCamelCase seg) = segmentToken seg"
  unfolding parameter_test slice_1_m1_eq segmentToken_def
  by (simp add: capitalize_By del: append.simps)

lemma pathToFunctionName_tokens:
  "pathToFunctionName path method = toLowerCase method @ concat (map segmentToken (pathSegments path))"
  unfolding pathToFunctionName_def Let_def pathSegments_def map_map comp_def capitalize_segment
  by simp

lemmas eval_defs = pathToFunctionName_def startsWith_def endsWith_def slice_1_m1_def capitalize_def
  char_defs dotMatches_def

text \<open>
  Where every hyphen and underscore of a name is followed by an ordinary character, the
  mapper's \<open>toCamelCase\<close> gives the camelCase form of the specification.
\<close>

lemma splitWhere_not_Nil: "splitWhere p s \<noteq> []"
  by (induction s) (auto split: list.splits)

lemma camelCaseForm_separator:
  assumes "isSeparator c" and "\<not> isSeparator d"
  shows "camelCaseForm (c # d # rest) = toUpperChar d # camelCaseForm rest"
proof -
  obtain w ws where r: "splitWhere isSeparator rest = w # ws"
    using splitWhere_not_Nil [of isSeparator rest] by (cases "splitWhere isSeparator rest") auto
  with assms show ?thesis
    by (simp add: camelCaseForm_def capitalize_def toUpperCase_def)
qed

lemma camelCaseForm_letter:
  assumes "\<not> isSeparator c"
  shows "camelCaseForm (c # rest) = c # camelCaseForm rest"
proof -
  obtain w ws where r: "splitWhere isSeparator rest = w # ws"
    using splitWhere_not_Nil [of isSeparator rest] by (cases "splitWhere isSeparator rest") auto
  with assms show ?thesis
    by (simp add: camelCaseForm_def)
qed

lemma toCamelCase_camelCaseForm:
  "boundariesFollowed s \<Longrightarrow> toCamelCase s = camelCaseForm s"
proof (induction s rule: toCamelCase.induct)
  case (1 c d rest)
  show ?case
  proof (cases "isSeparator c")
    case True
    with "1.prems" have d: "\<not> isSeparator d" "dotMatches d" and r: "boundariesFollowed rest"
      by auto
    from True d have "toCamelCase (c # d # rest) = toUpperChar d # toCamelCase rest"
      by (simp add: isSeparator_def)
    also from True d r "1.IH"(1) have "toCamelCase rest = camelCaseForm rest"
      by (simp add: isSeparator_def)
    finally show ?thesis
      using True d by (simp add: camelCaseForm_separator)
  next
    case False
    with "1.prems" have r: "boundariesFollowed (d # rest)" by simp
    from False have "toCamelCase (c # d # rest) = c # toCamelCase (d # rest)"
      by (simp add: isSeparator_def)
    also from False r "1.IH"(2) have "toCamelCase (d # rest) = camelCaseForm (d # rest)"
      by (simp add: isSeparator_def)
    finally show ?thesis
      using False by (simp add: camelCaseForm_letter)
  qed
qed (auto simp: camelCaseForm_def split: if_splits)

lemma segmentToken_callToken:
  "boundariesFollowed (segmentName seg) \<Longrightarrow> segmentToken seg = callToken seg"
  by (cases "isParameterSegment seg")
     (simp_all add: segmentToken_def callToken_def segmentName_def toCamelCase_camelCaseForm)

lemma pathToFunctionName_specCallName:
  assumes "list_all (\<lambda>seg. boundariesFollowed (segmentName seg)) (pathSegments path)"
  shows "pathToFunctionName path method = specCallName path method"
proof -
  have "map segmentToken (pathSegments path) = map callToken (pathSegments path)"
  proof (rule map_cong [OF refl])
    fix seg
    assume "seg \<in> set (pathSegments path)"
    with assms have "boundariesFollowed (segmentName seg)" by (simp add: list_all_iff)
    then show "segmentToken seg = callToken seg" by (rule segmentToken_callToken)
  qed
  then show ?thesis
    by (simp only: pathToFunctionName_tokens specCallName_def)
qed

text \<open>The camelCase form of the specification keeps no hyphen and no underscore.\<close>

lemma toUpperChar_not_separator: "\<not> isSeparator c \<Longrightarrow> \<not> isSeparator (toUpperChar c)"
proof (cases "map_of (zip lowerLetters upperLetters) c")
  case None
  then show "\<not> isSeparator c \<Longrightarrow> \<not> isSeparator (toUpperChar c)"
    by (simp add: toUpperChar_def)
next
  case (Some u)
  then have "(c, u) \<in> set (zip lowerLetters upperLetters)" by (rule map_of_SomeD)
  then have "u \<in> set upperLetters" by (rule set_zip_rightD)
  then have "\<not> isSeparator u" by (auto simp: upperLetters_def isSeparator_def)
  with Some show ?thesis by (simp add: toUpperChar_def)
qed

lemma camelCaseForm_normalized: "list_all (\<lambda>c. \<not> isSeparator c) (camelCaseForm name)"
proof (induction name rule: length_induct)
  case (1 name)
  show ?case
  proof (cases name)
    case Nil
    then show ?thesis by (simp add: camelCaseForm_def)
  next
    case (Cons c rest)
    show ?thesis
    proof (cases "isSeparator c")
      case False
      with 1 Cons show ?thesis by (simp add: camelCaseForm_letter)
    next
      case True
      show ?thesis
      proof (cases rest)
        case Nil
        with True Cons show ?thesis
          by (simp add: camelCaseForm_def capitalize_def toUpperCase_def)
      next
        case (Cons d rest')
        show ?thesis
        proof (cases "isSeparator d")
          case False
          with 1 True Cons \<open>name = c # rest\<close> show ?thesis
            by (simp add: camelCaseForm_separator toUpperChar_not_separator)
        next
          case sep: True
          obtain w ws where r: "splitWhere isSeparator rest = w # ws"
            using splitWhere_not_Nil [of isSeparator rest] by (cases "splitWhere isSeparator rest") auto
          with True sep Cons have w: "w = []" by simp
          from True r w have "camelCaseForm (c # rest) = camelCaseForm rest"
            by (simp add: camelCaseForm_def capitalize_def toUpperCase_def)
          with 1 \<open>name = c # rest\<close> show ?thesis by simp
        qed
      qed
    qed
  qed
qed

lemma method_prefix:
  "m \<in> set httpMethods \<Longrightarrow> toLowerCase (toUpperCase m) = m"
  by (auto simp: httpMethods_def char_defs)

lemma callName_not_empty:
  assumes "m \<in> set httpMethods"
  shows "pathToFunctionName path (toUpperCase m) \<noteq> []"
proof -
  from assms have "m \<noteq> []" by (auto simp: httpMethods_def)
  then show ?thesis by (simp add: pathToFunctionName_tokens method_prefix [OF assms])
qed

text \<open>
  Claim C1. Where every hyphen and underscore of every segment name is directly followed
  by an ordinary character, the call name is the one the specification describes: the
  lowercase method, then \<open>By\<close> and the capitalized camelCase parameter name for a segment
  \<open>{x}\<close>, the capitalized camelCase segment for a literal one; GET on
  \<open>/order-history/{id}\<close> gives \<open>getOrderHistoryById\<close>. The camelCase form of the
  specification keeps no hyphen and no underscore. The mapper's \<open>toCamelCase\<close> leaves a
  hyphen or underscore that follows another one: GET on \<open>/order--history/{user__id}\<close>
  gives \<open>getOrder-historyByUser_id\<close>, where the specification has
  \<open>getOrderHistoryByUserId\<close>.
\<close>

theorem C1_callName_separator_runs:
  "(list_all (\<lambda>seg. boundariesFollowed (segmentName seg)) (pathSegments path) \<longrightarrow>
      pathToFunctionName path method = specCallName path method)
   \<and> list_all (\<lambda>c. \<not> isSeparator c) (camelCaseForm name)
   \<and> pathToFunctionName ''/order-history/{id}'' ''GET'' = ''getOrderHistoryById''
   \<and> specCallName ''/order-history/{id}'' ''GET'' = ''getOrderHistoryById''
   \<and> pathToFunctionName ''/order--history/{user__id}'' ''GET'' = ''getOrder-historyByUser_id''
   \<and> specCallName ''/order--history/{user__id}'' ''GET'' = ''getOrderHistoryByUserId''"
proof (intro conjI impI)
  show "pathToFunctionName path method = specCallName path method"
    if "list_all (\<lambda>seg. boundariesFollowed (segmentName seg)) (pathSegments path)"
    using that by (rule pathToFunctionName_specCallName)
  show "list_all (\<lambda>c. \<not> isSeparator c) (camelCaseForm name)"
    by (rule camelCaseForm_normalized)
  show "pathToFunctionName ''/order-history/{id}'' ''GET'' = ''getOrderHistoryById''"
    by (simp add: eval_defs)
  show "specCallName ''/order-history/{id}'' ''GET'' = ''getOrderHistoryById''"
    by code_simp
  show "pathToFunctionName ''/order--history/{user__id}'' ''GET'' = ''getOrder-historyByUser_id''"
    by (simp add: eval_defs)
  show "specCallName ''/order--history/{user__id}'' ''GET'' = ''getOrderHistoryByUserId''"
    by code_simp
qed

theorem C1_callName_separator_runs_witness:
  "list_all (\<lambda>seg. boundariesFollowed (segmentName seg))
            (pathSegments ''/order-history-items/{user_id_x}'')
   \<and> specCallName ''/order-history-items/{user_id_x}'' ''POST'' = ''postOrderHistoryItemsByUserIdX''
   \<and> pathToFunctionName ''/order-history-items/{user_id_x}'' ''POST''
       = ''postOrderHistoryItemsByUserIdX''"
proof -
  have h: "list_all (\<lambda>seg. boundariesFollowed (segmentName seg))
                    (pathSegments ''/order-history-items/{user_id_x}'')"
    by code_simp
  have s: "specCallName ''/order-history-items/{user_id_x}'' ''POST'' = ''postOrderHistoryItemsByUserIdX''"
    by code_simp
  from h C1_callName_separator_runs [of "''/order-history-items/{user_id_x}''" "''POST''"]
  have "pathToFunctionName ''/order-history-items/{user_id_x}'' ''POST''
          = specCallName ''/order-history-items/{user_id_x}'' ''POST''"
    by blast
  with h s show ?thesis by simp
qed

text \<open>
  Claim C8. The call name is never empty, but it is not always identifier-safe: the dot of
  \<open>/api/v1.0/users\<close> reaches the call name, DELETE on the root path is named by the
  reserved word \<open>delete\<close>, and the hyphen that \<open>toCamelCase\<close> leaves in
  \<open>/order--history/{user__id}\<close> reaches it too.
\<close>

theorem C8_callName_not_identifier_safe:
  "pathToFunctionName ''/api/v1.0/users'' ''GET'' = ''getApiV1.0Users''
   \<and> \<not> identifierSafe (pathToFunctionName ''/api/v1.0/users'' ''GET'')
   \<and> pathToFunctionName ''/'' ''DELETE'' = ''delete''
   \<and> \<not> identifierSafe (pathToFunctionName ''/'' ''DELETE'')
   \<and> \<not> identifierSafe (pathToFunctionName ''/order--history/{user__id}'' ''GET'')"
  by code_simp

section \<open>Type names\<close>

lemma getSchemaName_reference:
  "schema_ref s = Some r \<Longrightarrow> r \<noteq> [] \<Longrightarrow> getSchemaName s = refName r"
  by (cases s) (simp add: truthyRef_def)

lemma getSchemaName_array:
  "truthyRef s = None \<Longrightarrow> schema_type s = Some ''array'' \<Longrightarrow> schema_items s = Some it \<Longrightarrow>
   getSchemaName s = getSchemaName it @ ''[]''"
  by (cases s) simp

lemma arraySuffix_Suc: "arraySuffix (Suc n) = arraySuffix n @ ''[]''"
  unfolding arraySuffix_def by (induction n) simp_all

lemma getSchemaName_nestArray: "getSchemaName (nestArray n s) = getSchemaName s @ arraySuffix n"
proof (induction n)
  case 0
  show ?case by (simp add: arraySuffix_def)
next
  case (Suc n)
  have "getSchemaName (nestArray (Suc n) s) = getSchemaName (nestArray n s) @ ''[]''"
    by (simp add: truthyRef_def)
  with Suc show ?case by (simp add: arraySuffix_Suc)
qed

text \<open>
  Claim C5, as the code has it. A reference node (its \<open>$ref\<close> is a non-empty string)
  resolves to the final path segment of the target when that segment is non-empty, and to
  \<open>any\<close> when the target ends in a slash. A node that is not a reference node and
  declares type \<open>array\<close> with an items node resolves to the resolution of its items
  followed by \<open>[]\<close>, at every depth: an array of arrays of references to \<open>T\<close>
  resolves to \<open>T[][]\<close>.
\<close>

theorem C5_getSchemaName_reference_and_arrays:
  "(schema_ref s = Some r \<and> r \<noteq> [] \<longrightarrow>
      getSchemaName s = (if last (split CHR ''/'' r) = [] then ''any'' else last (split CHR ''/'' r)))
   \<and> (truthyRef s = None \<and> schema_type s = Some ''array'' \<and> schema_items s = Some it \<longrightarrow>
        getSchemaName s = getSchemaName it @ ''[]'')
   \<and> getSchemaName (nestArray n s) = getSchemaName s @ arraySuffix n
   \<and> (schema_ref s = Some r \<and> last (split CHR ''/'' r) \<noteq> [] \<longrightarrow>
        getSchemaName (nestArray 2 s) = last (split CHR ''/'' r) @ ''[][]'')"
proof (intro conjI impI)
  show "getSchemaName s = (if last (split CHR ''/'' r) = [] then ''any'' else last (split CHR ''/'' r))"
    if "schema_ref s = Some r \<and> r \<noteq> []"
    using that getSchemaName_reference [of s r] by (simp add: refName_def Let_def)
  show "getSchemaName s = getSchemaName it @ ''[]''"
    if "truthyRef s = None \<and> schema_type s = Some ''array'' \<and> schema_items s = Some it"
    using that by (simp add: getSchemaName_array)
  show "getSchemaName (nestArray n s) = getSchemaName s @ arraySuffix n"
    by (rule getSchemaName_nestArray)
  show "getSchemaName (nestArray 2 s) = last (split CHR ''/'' r) @ ''[][]''"
    if h: "schema_ref s = Some r \<and> last (split CHR ''/'' r) \<noteq> []"
  proof -
    from h have "r \<noteq> []" by auto
    with h have "getSchemaName s = last (split CHR ''/'' r)"
      using getSchemaName_reference [of s r] by (simp add: refName_def Let_def)
    moreover have "getSchemaName (nestArray 2 s) = getSchemaName s @ arraySuffix 2"
      by (rule getSchemaName_nestArray)
    moreover have "arraySuffix 2 = ''[][]''"
      by (simp add: arraySuffix_def numeral_2_eq_2)
    ultimately show ?thesis by (simp only:)
  qed
qed

theorem C5_getSchemaName_reference_and_arrays_witness:
  "schema_ref (Schema (Some ''#/components/schemas/User'') None None) = Some ''#/components/schemas/User''
   \<and> getSchemaName (Schema (Some ''#/components/schemas/User'') None None) = ''User''
   \<and> truthyRef (Schema None (Some ''array'') (Some (Schema (Some ''#/components/schemas/User'') None None))) = None
   \<and> getSchemaName (Schema None (Some ''array'') (Some (Schema (Some ''#/components/schemas/User'') None None)))
       = ''User[]''
   \<and> getSchemaName (nestArray 2 (Schema (Some ''#/components/schemas/User'') None None)) = ''User[][]''"
  using C5_getSchemaName_reference_and_arrays [of "Schema (Some ''#/components/schemas/User'') None None" "''#/components/schemas/User''"
              "Schema (Some ''#/components/schemas/User'') None None" 2]
        C5_getSchemaName_reference_and_arrays [of "Schema None (Some ''array'') (Some (Schema (Some ''#/components/schemas/User'') None None))"
              "[]" "Schema (Some ''#/components/schemas/User'') None None" 0]
  by (simp add: truthyRef_def arraySuffix_def numeral_2_eq_2)

text \<open>
  Claim C5 as stated fails twice: a reference whose target ends in a slash resolves to
  \<open>any\<close>, not to its empty final segment, and a reference node that also declares an
  array resolves to the reference name, not to its items followed by \<open>[]\<close>.
\<close>

theorem C5_empty_segment_counterexample:
  "last (split CHR ''/'' ''#/components/schemas/'') = []
   \<and> getSchemaName (Schema (Some ''#/components/schemas/'') None None) = ''any''
   \<and> getSchemaName (Schema (Some ''#/components/schemas/T'') (Some ''array'')
                           (Some (Schema None (Some ''string'') None))) = ''T''
   \<and> getSchemaName (Schema None (Some ''string'') None) @ ''[]'' = ''string[]''"
  by (simp add: truthyRef_def refName_def getTypeFromSchema_def typeMap_def)

text \<open>
  Claim C3. An array node with an items node is named \<open>any[]\<close> as the type of a
  parameter, which goes through \<open>getTypeFromSchema\<close>, and by its items as the schema of
  a request body or of a response, which go through \<open>getSchemaName\<close>: \<open>T[]\<close> for an
  array of references to \<open>T\<close>, \<open>string[]\<close> for an array of strings.
\<close>

theorem C3_parameter_type_differs:
  "map pm_type (mapParameters [exampleParameter (nestArray 1 (refTo ''T''))]) = [''any[]'']
   \<and> map_option rbm_schema (mapRequestBody (Some (exampleRequestBody (nestArray 1 (refTo ''T'')))))
       = Some ''T[]''
   \<and> getResponseSchema (exampleResponse (nestArray 1 (refTo ''T''))) = Some ''T[]''
   \<and> map pm_type (mapParameters [exampleParameter (nestArray 1 (Schema None (Some ''string'') None))])
       = [''any[]'']
   \<and> map_option rbm_schema
         (mapRequestBody (Some (exampleRequestBody (nestArray 1 (Schema None (Some ''string'') None)))))
       = Some ''string[]''
   \<and> getResponseSchema (exampleResponse (nestArray 1 (Schema None (Some ''string'') None)))
       = Some ''string[]''"
  by code_simp

section \<open>The catalog\<close>

lemma update_set: "set (AList.update k v al) \<subseteq> insert (k, v) (set al)"
  by (induction al) auto

lemma foldl_update_set:
  "(n, r) \<in> set (foldl (\<lambda>acc (name, raw). AList.update name (g name raw) acc) init entries) \<Longrightarrow>
   (n, r) \<in> set init \<or> (\<exists>raw. (n, raw) \<in> set entries \<and> r = g n raw)"
proof (induction entries arbitrary: init)
  case Nil
  then show ?case by simp
next
  case (Cons e entries)
  obtain k raw where e: "e = (k, raw)" by (cases e)
  from Cons.prems have
    "(n, r) \<in> set (foldl (\<lambda>acc (name, raw). AList.update name (g name raw) acc)
                         (AList.update k (g k raw) init) entries)"
    by (simp add: e)
  from Cons.IH [OF this] show ?case
  proof
    assume "(n, r) \<in> set (AList.update k (g k raw) init)"
    with update_set [of k "g k raw" init] have "(n, r) = (k, g k raw) \<or> (n, r) \<in> set init"
      by auto
    then show ?thesis by (auto simp: e)
  next
    assume "\<exists>raw. (n, raw) \<in> set entries \<and> r = g n raw"
    then show ?thesis by auto
  qed
qed

lemma foldl_update_keys:
  "fst ` set (foldl (\<lambda>acc (name, raw). AList.update name (g name raw) acc) init entries)
     = fst ` set init \<union> fst ` set entries"
proof (induction entries arbitrary: init)
  case Nil
  show ?case by simp
next
  case (Cons e entries)
  obtain k raw where e: "e = (k, raw)" by (cases e)
  show ?case by (auto simp: e Cons.IH dom_update)
qed

lemma foldl_update_distinct:
  "distinct (map fst init) \<Longrightarrow>
   distinct (map fst (foldl (\<lambda>acc (name, raw). AList.update name (g name raw) acc) init entries))"
proof (induction entries arbitrary: init)
  case Nil
  then show ?case by simp
next
  case (Cons e entries)
  obtain k raw where e: "e = (k, raw)" by (cases e)
  from Cons.prems have "distinct (map fst (AList.update k (g k raw) init))"
    by (rule distinct_update)
  from Cons.IH [OF this] show ?case by (simp add: e)
qed

lemma extractSchemas_indexed:
  "extractSchemas schemas api =
     foldl (\<lambda>acc (name, raw). AList.update name (indexed name raw) acc) schemas (rawDefinitions api)"
  unfolding extractSchemas_def rawDefinitions_def indexed_def Let_def
  by (simp split: option.splits)

lemma extractSchemas_entry:
  assumes "(n, r) \<in> set (extractSchemas [] api)"
  shows "\<exists>raw. (n, raw) \<in> set (rawDefinitions api) \<and> r = indexed n raw"
  using foldl_update_set [OF assms [unfolded extractSchemas_indexed]] by simp

lemma extractSchemas_keys:
  "fst ` set (extractSchemas schemas api) = fst ` set schemas \<union> fst ` set (rawDefinitions api)"
  unfolding extractSchemas_indexed by (rule foldl_update_keys)

lemma extractSchemas_distinct:
  "distinct (map fst schemas) \<Longrightarrow> distinct (map fst (extractSchemas schemas api))"
  unfolding extractSchemas_indexed by (rule foldl_update_distinct)

text \<open>
  Claim C7, as the code has it. Every record of the catalog of a new mapper comes from a
  raw definition of the same name in \<open>components.schemas\<close> or \<open>definitions\<close>, and
  every raw definition is indexed. Missing properties become the empty mapping. A missing
  \<open>required\<close> stays absent in the record, which reads as no required name. A document
  with neither container gives the empty catalog. Indexing is a total function: it has no
  failing branch.
\<close>

theorem C7_catalog_defaults:
  "((n, r) \<in> set (extractSchemas [] api) \<longrightarrow>
      (\<exists>raw. (n, raw) \<in> set (rawDefinitions api)
         \<and> sm_name r = n
         \<and> sm_properties r = (case rs_properties raw of None \<Rightarrow> [] | Some ps \<Rightarrow> ps)
         \<and> sm_required r = rs_required raw
         \<and> requiredNames r = (case rs_required raw of None \<Rightarrow> {} | Some req \<Rightarrow> set req)))
   \<and> fst ` set (extractSchemas [] api) = fst ` set (rawDefinitions api)
   \<and> (api_components api = None \<and> api_definitions api = None \<longrightarrow> extractSchemas [] api = [])"
proof (intro conjI impI)
  show "\<exists>raw. (n, raw) \<in> set (rawDefinitions api)
         \<and> sm_name r = n
         \<and> sm_properties r = (case rs_properties raw of None \<Rightarrow> [] | Some ps \<Rightarrow> ps)
         \<and> sm_required r = rs_required raw
         \<and> requiredNames r = (case rs_required raw of None \<Rightarrow> {} | Some req \<Rightarrow> set req)"
    if "(n, r) \<in> set (extractSchemas [] api)"
  proof -
    from that obtain raw where "(n, raw) \<in> set (rawDefinitions api)" and "r = indexed n raw"
      using extractSchemas_entry by blast
    then show ?thesis
      by (auto simp: indexed_def requiredNames_def)
  qed
  show "fst ` set (extractSchemas [] api) = fst ` set (rawDefinitions api)"
    by (simp add: extractSchemas_keys)
  show "extractSchemas [] api = []"
    if "api_components api = None \<and> api_definitions api = None"
    using that by (simp add: extractSchemas_def)
qed

lemma example_catalog:
  "extractSchemas [] exampleDocument =
     [(''User'', \<lparr> sm_name = ''User'',
                   sm_properties = [(''id'', Schema None (Some ''integer'') None),
                                    (''name'', Schema None (Some ''string'') None)],
                   sm_required = Some [''id''] \<rparr>),
      (''Product'', \<lparr> sm_name = ''Product'', sm_properties = [], sm_required = None \<rparr>),
      (''Unused'', \<lparr> sm_name = ''Unused'', sm_properties = [], sm_required = None \<rparr>)]"
  by (simp add: extractSchemas_def exampleDocument_def)

theorem C7_catalog_defaults_witness:
  "(''Product'', \<lparr> sm_name = ''Product'', sm_properties = [], sm_required = None \<rparr>)
     \<in> set (extractSchemas [] exampleDocument)
   \<and> (\<exists>raw. (''Product'', raw) \<in> set (rawDefinitions exampleDocument) \<and> rs_required raw = None)
   \<and> api_components \<lparr> api_paths = None, api_components = None, api_definitions = None \<rparr> = None
   \<and> api_definitions \<lparr> api_paths = None, api_components = None, api_definitions = None \<rparr> = None
   \<and> extractSchemas [] \<lparr> api_paths = None, api_components = None, api_definitions = None \<rparr> = []"
proof -
  have a: "(''Product'', \<lparr> sm_name = ''Product'', sm_properties = [], sm_required = None \<rparr>)
             \<in> set (extractSchemas [] exampleDocument)"
    by (simp add: example_catalog)
  have b: "api_components \<lparr> api_paths = None, api_components = None, api_definitions = None \<rparr> = None
           \<and> api_definitions \<lparr> api_paths = None, api_components = None, api_definitions = None \<rparr> = None"
    by simp
  from a C7_catalog_defaults [of "''Product''" "\<lparr> sm_name = ''Product'', sm_properties = [], sm_required = None \<rparr>"
               exampleDocument]
  have "\<exists>raw. (''Product'', raw) \<in> set (rawDefinitions exampleDocument) \<and> rs_required raw = None"
    by auto
  moreover from b C7_catalog_defaults [of "''Product''" "\<lparr> sm_name = ''Product'', sm_properties = [], sm_required = None \<rparr>"
               "\<lparr> api_paths = None, api_components = None, api_definitions = None \<rparr>"]
  have "extractSchemas [] \<lparr> api_paths = None, api_components = None, api_definitions = None \<rparr> = []"
    by blast
  ultimately show ?thesis using a b by blast
qed

text \<open>
  Claim C7 as stated fails: the record of a raw definition without \<open>required\<close> has no
  \<open>required\<close> field, not an empty one.
\<close>

theorem C7_required_absent_counterexample:
  "map_of (rawDefinitions exampleDocument) ''Product'' = Some \<lparr> rs_properties = None, rs_required = None \<rparr>
   \<and> map_option sm_required (map_of (extractSchemas [] exampleDocument) ''Product'') = Some None
   \<and> map_option sm_required (map_of (extractSchemas [] exampleDocument) ''Product'') \<noteq> Some (Some [])"
proof -
  have "map_of (rawDefinitions exampleDocument) ''Product''
          = Some \<lparr> rs_properties = None, rs_required = None \<rparr>"
    by (simp add: rawDefinitions_def exampleDocument_def)
  moreover have "map_option sm_required (map_of (extractSchemas [] exampleDocument) ''Product'') = Some None"
    by (simp add: example_catalog)
  ultimately show ?thesis by auto
qed

section \<open>Schemas of a module\<close>

text \<open>
  Claim C6. \<open>GET /products\<close> answers with an array of arrays of \<open>Product\<close>, named
  \<open>Product[][]\<close>, and \<open>Product\<close> is in the catalog; yet the module \<open>Products\<close>
  references no schema, because only the first \<open>[]\<close> of the name is removed before
  the lookup.
\<close>

theorem C6_nested_array_suffix_drops_schema:
  "map (map rm_schema \<circ> ep_responses)
       (concat (map mm_endpoints
          (filter (\<lambda>m. mm_tag m = ''Products'') (fst (mapToModules [] exampleDocument None)))))
     = [[Some ''Product[][]''], [None]]
   \<and> map fst (snd (mapToModules [] exampleDocument None)) = [''User'', ''Product'', ''Unused'']
   \<and> map mm_schemas
         (filter (\<lambda>m. mm_tag m = ''Products'') (fst (mapToModules [] exampleDocument None))) = [[]]
   \<and> replaceFirst ''[]'' [] ''Product[][]'' = ''Product[]''"
  by code_simp

section \<open>The types file\<close>

lemma foldl_append_concat: "foldl (\<lambda>acc x. acc @ f x) a xs = a @ concat (map f xs)"
  by (induction xs arbitrary: a) simp_all

lemma addProperty_eq: "addProperty schema = (\<lambda>acc prop. acc @ propertyDeclaration schema prop)"
  by (rule ext, rule ext)
     (simp add: addProperty_def propertyDeclaration_def requiredNames_def Let_def
           split: prod.splits option.splits)

lemma typeDeclaration_step:
  "(\<lambda>typesContent (name, schema).
       foldl (addProperty schema)
             (typesContent @ ''export interface '' @ name @ [CHR '' '', CHR ''{'', CHR 0x0A])
             (sm_properties schema)
       @ [CHR ''}'', CHR 0x0A, CHR 0x0A])
   = (\<lambda>acc entry. acc @ typeDeclaration entry)"
  by (rule ext, rule ext)
     (simp add: addProperty_eq foldl_append_concat typeDeclaration_def split: prod.splits)

lemma generateTypesContent_declarations:
  "generateTypesContent schemas =
     ''// Auto-generated type definitions'' @ [CHR 0x0A, CHR 0x0A]
       @ concat (map typeDeclaration schemas)"
  unfolding generateTypesContent_def typeDeclaration_step
  by (simp only: foldl_append_concat append_assoc)

lemma map_filter_member: "y \<in> set (List.map_filter f xs) \<Longrightarrow> \<exists>x \<in> set xs. f x = Some y"
  by (induction xs) (auto simp: map_filter_simps split: option.splits)

lemma getSchemasForModule_in_catalog:
  assumes "r \<in> set (getSchemasForModule schemas endpoints)"
  shows "r \<in> snd ` set schemas"
proof -
  from assms obtain n where "map_of schemas n = Some r"
    unfolding getSchemasForModule_def Let_def by (blast dest: map_filter_member)
  then have "(n, r) \<in> set schemas" by (rule map_of_SomeD)
  then show ?thesis by (rule rev_image_eqI) simp
qed

lemma mapToModules_catalog: "snd (mapToModules schemas0 api sel) = extractSchemas schemas0 api"
  by (simp add: mapToModules_def Let_def)

lemma referencedSchemas_in_catalog:
  "set (referencedSchemas (fst (mapToModules schemas0 api sel)))
     \<subseteq> snd ` set (snd (mapToModules schemas0 api sel))"
  unfolding referencedSchemas_def mapToModules_def Let_def
  by (auto dest: getSchemasForModule_in_catalog)

text \<open>
  Claim C4, as the code has it. When TypeScript is selected the types file holds, after
  its header, exactly one type declaration for each record of the catalog, in catalog
  order and whether or not a module references it; in each declaration a property is
  marked optional exactly when its name is not among the required names of the schema.
  No types file is written for another language. The names of the catalog are distinct,
  and every schema a module references is in the catalog, hence declared.
\<close>

theorem C4_types_file_declares_catalog:
  "(wa_language (gc_answers context) = ''typescript'' \<longrightarrow>
      generateTypes context
        = Some (''types.ts'',
                ''// Auto-generated type definitions'' @ [CHR 0x0A, CHR 0x0A]
                  @ concat (map typeDeclaration (gc_schemas context))))
   \<and> (wa_language (gc_answers context) \<noteq> ''typescript'' \<longrightarrow> generateTypes context = None)
   \<and> (gc_modules context = fst (mapToModules [] api sel)
        \<and> gc_schemas context = snd (mapToModules [] api sel) \<longrightarrow>
          distinct (map fst (gc_schemas context))
          \<and> set (referencedSchemas (gc_modules context)) \<subseteq> snd ` set (gc_schemas context))"
proof (intro conjI impI)
  show "generateTypes context
        = Some (''types.ts'',
                ''// Auto-generated type definitions'' @ [CHR 0x0A, CHR 0x0A]
                  @ concat (map typeDeclaration (gc_schemas context)))"
    if "wa_language (gc_answers context) = ''typescript''"
    using that
    by (simp add: generateTypes_def generateTypesFile_def getFileExtension_def
          generateTypesContent_declarations)
  show "generateTypes context = None" if "wa_language (gc_answers context) \<noteq> ''typescript''"
    using that by (simp add: generateTypes_def)
  show "distinct (map fst (gc_schemas context))"
    if "gc_modules context = fst (mapToModules [] api sel)
        \<and> gc_schemas context = snd (mapToModules [] api sel)"
    using that by (simp add: mapToModules_catalog extractSchemas_distinct)
  show "set (referencedSchemas (gc_modules context)) \<subseteq> snd ` set (gc_schemas context)"
    if "gc_modules context = fst (mapToModules [] api sel)
        \<and> gc_schemas context = snd (mapToModules [] api sel)"
    using that referencedSchemas_in_catalog [of "[]" api sel] by simp
qed


theorem C4_types_file_declares_catalog_witness:
  "wa_language (gc_answers (exampleContext ''typescript'')) = ''typescript''
   \<and> generateTypes (exampleContext ''typescript'')
       = Some (''types.ts'',
               ''// Auto-generated type definitions'' @ [CHR 0x0A, CHR 0x0A]
                 @ concat (map typeDeclaration (gc_schemas (exampleContext ''typescript''))))
   \<and> wa_language (gc_answers (exampleContext ''javascript'')) \<noteq> ''typescript''
   \<and> generateTypes (exampleContext ''javascript'') = None
   \<and> gc_modules (exampleContext ''typescript'') = fst (mapToModules [] exampleDocument None)
   \<and> gc_schemas (exampleContext ''typescript'') = snd (mapToModules [] exampleDocument None)
   \<and> distinct (map fst (gc_schemas (exampleContext ''typescript'')))
   \<and> set (referencedSchemas (gc_modules (exampleContext ''typescript'')))
        \<subseteq> snd ` set (gc_schemas (exampleContext ''typescript''))"
proof -
  have ts: "wa_language (gc_answers (exampleContext ''typescript'')) = ''typescript''"
    and js: "wa_language (gc_answers (exampleContext ''javascript'')) \<noteq> ''typescript''"
    and ms: "gc_modules (exampleContext ''typescript'') = fst (mapToModules [] exampleDocument None)"
    and ss: "gc_schemas (exampleContext ''typescript'') = snd (mapToModules [] exampleDocument None)"
    by (simp_all add: exampleContext_def)
  from ts js ms ss
    C4_types_file_declares_catalog [of "exampleContext ''typescript''" exampleDocument None]
    C4_types_file_declares_catalog [of "exampleContext ''javascript''" exampleDocument None]
  show ?thesis by blast
qed

text \<open>
  Claim C4 as stated fails: \<open>Unused\<close> is referenced by no module and is declared in
  the types file all the same.
\<close>

theorem C4_unreferenced_schema_declared_counterexample:
  "''Unused'' \<in> set (map fst (gc_schemas (exampleContext ''typescript'')))
   \<and> ''Unused'' \<notin> set (map sm_name (referencedSchemas (gc_modules (exampleContext ''typescript''))))
   \<and> map_option snd (generateTypes (exampleContext ''typescript''))
       = Some (''// Auto-generated type definitions\<newline>\<newline>''
               @ ''export interface User {\<newline>  id: number;\<newline>  name?: string;\<newline>}\<newline>\<newline>''
               @ ''export interface Product {\<newline>}\<newline>\<newline>''
               @ ''export interface Unused {\<newline>}\<newline>\<newline>'')"
  by code_simp

section \<open>Rendering a module\<close>

lemma loadFrom_keys:
  "loadFrom readFile compile templates files = Inr loaded \<Longrightarrow>
   fst ` set loaded = fst ` set templates \<union> fst ` set files"
proof (induction files arbitrary: templates)
  case Nil
  then show ?case by simp
next
  case (Cons f files)
  obtain library filename where f: "f = (library, filename)" by (cases f)
  from Cons.prems obtain templateContent where
    "loadFrom readFile compile (AList.update library (compile templateContent) templates) files
       = Inr loaded"
    by (auto simp: f split: option.splits)
  from Cons.IH [OF this] show ?case by (auto simp: f dom_update)
qed

lemma loadTemplates_registered:
  assumes "loadTemplates readFile compile templates = Inr loaded"
    and "library \<in> set [''zustand'', ''redux-toolkit'', ''axios-hooks'', ''fetch-api'']"
  shows "map_of loaded library \<noteq> None"
proof -
  from assms(1) have "fst ` set loaded = fst ` set templates \<union> fst ` set templateFiles"
    unfolding loadTemplates_def by (rule loadFrom_keys)
  moreover from assms(2) have "library \<in> fst ` set templateFiles"
    by (auto simp: templateFiles_def)
  ultimately have "library \<in> fst ` set loaded" by simp
  then show ?thesis by (simp add: map_of_eq_None_iff)
qed

lemma generateModule_unknown:
  "(\<exists>msg. generateModule templates conv module library language = Inl (UnknownLibrary msg))
     = (map_of templates library = None)"
  by (auto simp: generateModule_def split: option.splits)

text \<open>
  Claim C9. Rendering a module ends with the error \<open>UnknownLibrary\<close> exactly when no
  template is registered for the selected library. Once \<open>loadTemplates\<close> has succeeded,
  rendering for any of the four supported libraries does not end with that error.
\<close>

theorem C9_unknown_library_iff_unregistered:
  "((\<exists>msg. generateModule templates conv module library language = Inl (UnknownLibrary msg))
      \<longleftrightarrow> map_of templates library = None)
   \<and> (loadTemplates readFile compile templates0 = Inr templates
        \<and> library \<in> set [''zustand'', ''redux-toolkit'', ''axios-hooks'', ''fetch-api'']
        \<longrightarrow> (\<forall>msg. generateModule templates conv module library language \<noteq> Inl (UnknownLibrary msg)))"
proof (intro conjI impI)
  show "(\<exists>msg. generateModule templates conv module library language = Inl (UnknownLibrary msg))
      \<longleftrightarrow> map_of templates library = None"
    by (rule generateModule_unknown)
  show "\<forall>msg. generateModule templates conv module library language \<noteq> Inl (UnknownLibrary msg)"
    if "loadTemplates readFile compile templates0 = Inr templates
        \<and> library \<in> set [''zustand'', ''redux-toolkit'', ''axios-hooks'', ''fetch-api'']"
  proof -
    from that have registered: "map_of templates library \<noteq> None"
      using loadTemplates_registered by blast
    show ?thesis
    proof (intro allI notI)
      fix msg
      assume "generateModule templates conv module library language = Inl (UnknownLibrary msg)"
      then have "\<exists>msg. generateModule templates conv module library language = Inl (UnknownLibrary msg)"
        by (rule exI)
      then have "map_of templates library = None"
        by (simp only: generateModule_unknown)
      with registered show False by contradiction
    qed
  qed
qed

lemma example_templates:
  "loadTemplates Some exampleCompile [] =
     Inr [(''zustand'', exampleCompile ''zustand.hbs''),
          (''redux-toolkit'', exampleCompile ''redux-toolkit.hbs''),
          (''axios-hooks'', exampleCompile ''axios-hooks.hbs''),
          (''fetch-api'', exampleCompile ''fetch-api.hbs'')]"
  by (simp add: loadTemplates_def templateFiles_def)

theorem C9_unknown_library_iff_unregistered_witness:
  "loadTemplates Some exampleCompile [] =
     Inr [(''zustand'', exampleCompile ''zustand.hbs''),
          (''redux-toolkit'', exampleCompile ''redux-toolkit.hbs''),
          (''axios-hooks'', exampleCompile ''axios-hooks.hbs''),
          (''fetch-api'', exampleCompile ''fetch-api.hbs'')]
   \<and> ''redux-toolkit'' \<in> set [''zustand'', ''redux-toolkit'', ''axios-hooks'', ''fetch-api'']
   \<and> generateModule [(''zustand'', exampleCompile ''zustand.hbs''),
          (''redux-toolkit'', exampleCompile ''redux-toolkit.hbs''),
          (''axios-hooks'', exampleCompile ''axios-hooks.hbs''),
          (''fetch-api'', exampleCompile ''fetch-api.hbs'')] id exampleModule ''redux-toolkit'' ''typescript''
       \<noteq> Inl (UnknownLibrary ''Template not found for library: redux-toolkit'')
   \<and> map_of [(''zustand'', exampleCompile ''zustand.hbs'')] ''svelte'' = None
   \<and> generateModule [(''zustand'', exampleCompile ''zustand.hbs'')] id exampleModule ''svelte'' ''typescript''
       = Inl (UnknownLibrary ''Template not found for library: svelte'')"
proof -
  have l: "''redux-toolkit'' \<in> set [''zustand'', ''redux-toolkit'', ''axios-hooks'', ''fetch-api'']"
    by simp
  from example_templates l
    C9_unknown_library_iff_unregistered [where readFile = Some and compile = exampleCompile and ?templates0.0 = "[]"
          and library = "''redux-toolkit''" and conv = id and module = exampleModule
          and language = "''typescript''"]
  have g: "generateModule [(''zustand'', exampleCompile ''zustand.hbs''),
          (''redux-toolkit'', exampleCompile ''redux-toolkit.hbs''),
          (''axios-hooks'', exampleCompile ''axios-hooks.hbs''),
          (''fetch-api'', exampleCompile ''fetch-api.hbs'')] id exampleModule ''redux-toolkit'' ''typescript''
       \<noteq> Inl (UnknownLibrary ''Template not found for library: redux-toolkit'')"
    by blast
  have n: "map_of [(''zustand'', exampleCompile ''zustand.hbs'')] ''svelte'' = None"
    by simp
  have "generateModule [(''zustand'', exampleCompile ''zustand.hbs'')] id exampleModule ''svelte'' ''typescript''
       = Inl (UnknownLibrary ''Template not found for library: svelte'')"
    by (simp add: generateModule_def)
  with g n l example_templates show ?thesis by simp
qed

section \<open>Grouping into modules\<close>

lemma pushAll_Nil: "pushAll mm [] = mm"
  by (simp add: pushAll_def)

lemma pushAll_Cons: "pushAll mm (p # ps) = pushAll (pushEndpoint mm (fst p) (snd p)) ps"
  by (simp add: pushAll_def)

lemma pushAll_append: "pushAll mm (ps @ qs) = pushAll (pushAll mm ps) qs"
  by (simp add: pushAll_def)

lemma foldl_pushAll:
  assumes "\<And>mm x. f mm x = pushAll mm (filter P (g x))"
  shows "foldl f mm xs = pushAll mm (filter P (concat (map g xs)))"
proof (induction xs arbitrary: mm)
  case Nil
  show ?case by (simp add: pushAll_Nil)
next
  case (Cons x xs)
  have "foldl f mm (x # xs) = foldl f (f mm x) xs" by simp
  also have "\<dots> = pushAll (f mm x) (filter P (concat (map g xs)))" by (rule Cons.IH)
  also have "\<dots> = pushAll mm (filter P (concat (map g (x # xs))))"
    by (simp add: assms pushAll_append)
  finally show ?case .
qed

lemma addToTag_pushAll:
  "addToTag sel endpoint mm tag
     = pushAll mm (filter (\<lambda>pair. tagSelected sel (fst pair)) [(tag, endpoint)])"
  by (cases sel) (simp_all add: addToTag_def tagSelected_def pushAll_Nil pushAll_Cons)

lemma effective_tags:
  "(if length (ep_tags (mapEndpoint path method operation)) > 0
    then ep_tags (mapEndpoint path method operation) else [getTagFromPath path])
   = operationTags path operation"
  by (simp add: mapEndpoint_def operationTags_def Let_def split: option.splits)

lemma addMethod_pushAll:
  "addMethod sel path pathItem mm method
     = pushAll mm (filter (\<lambda>pair. tagSelected sel (fst pair)) (methodPairs path pathItem method))"
proof (cases "map_of pathItem method")
  case None
  then show ?thesis by (simp add: addMethod_def methodPairs_def pushAll_Nil)
next
  case (Some operation)
  have "foldl (addToTag sel (mapEndpoint path (toUpperCase method) operation)) mm
              (operationTags path operation)
        = pushAll mm (filter (\<lambda>pair. tagSelected sel (fst pair))
            (concat (map (\<lambda>tag. [(tag, mapEndpoint path (toUpperCase method) operation)])
                         (operationTags path operation))))"
    by (rule foldl_pushAll) (rule addToTag_pushAll)
  moreover have "concat (map (\<lambda>tag. [(tag, mapEndpoint path (toUpperCase method) operation)])
                         (operationTags path operation))
        = map (\<lambda>tag. (tag, mapEndpoint path (toUpperCase method) operation))
              (operationTags path operation)"
    by (induction "operationTags path operation") simp_all
  ultimately show ?thesis
    unfolding addMethod_def methodPairs_def Let_def effective_tags
    using Some by simp
qed

lemma methodPairs_no_item: "concat (map (methodPairs path []) methods) = []"
  by (induction methods) (simp_all add: methodPairs_def)

lemma addPath_pushAll:
  "addPath sel mm entry = pushAll mm (filter (\<lambda>pair. tagSelected sel (fst pair)) (pathPairs entry))"
proof (cases entry)
  case (Pair path item)
  show ?thesis
  proof (cases item)
    case None
    then show ?thesis
      by (simp add: Pair addPath_def pathPairs_def methodPairs_no_item pushAll_Nil)
  next
    case (Some pathItem)
    have "foldl (addMethod sel path pathItem) mm httpMethods
          = pushAll mm (filter (\<lambda>pair. tagSelected sel (fst pair))
              (concat (map (methodPairs path pathItem) httpMethods)))"
      by (rule foldl_pushAll) (rule addMethod_pushAll)
    then show ?thesis by (simp add: Pair Some addPath_def pathPairs_def)
  qed
qed

lemma taggedEndpoints_pathPairs:
  "taggedEndpoints api = concat (map pathPairs (case api_paths api of None \<Rightarrow> [] | Some paths \<Rightarrow> paths))"
  by (simp add: taggedEndpoints_def pathPairs_def methodPairs_def split_def)

lemma moduleMap_pushAll:
  "(case api_paths api of None \<Rightarrow> [] | Some paths \<Rightarrow> foldl (addPath sel) [] paths)
     = pushAll [] (filter (\<lambda>pair. tagSelected sel (fst pair)) (taggedEndpoints api))"
proof (cases "api_paths api")
  case None
  then show ?thesis by (simp add: taggedEndpoints_pathPairs pushAll_Nil)
next
  case (Some paths)
  have "foldl (addPath sel) [] paths
        = pushAll [] (filter (\<lambda>pair. tagSelected sel (fst pair)) (concat (map pathPairs paths)))"
    by (rule foldl_pushAll) (rule addPath_pushAll)
  then show ?thesis by (simp add: Some taggedEndpoints_pathPairs)
qed

lemma mapToModules_pushAll:
  "fst (mapToModules schemas api sel)
     = map (toModule (extractSchemas schemas api))
           (pushAll [] (filter (\<lambda>pair. tagSelected sel (fst pair)) (taggedEndpoints api)))"
  unfolding mapToModules_def Let_def fst_conv moduleMap_pushAll toModule_def
  by (simp add: split_def)

lemma filter_update:
  "filter (\<lambda>entry. fst entry \<in> F) (AList.update k v al)
     = (if k \<in> F then AList.update k v (filter (\<lambda>entry. fst entry \<in> F) al)
        else filter (\<lambda>entry. fst entry \<in> F) al)"
  by (induction al) auto

lemma filter_map_entry:
  "filter (\<lambda>entry. fst entry \<in> F) (AList.map_entry k f al)
     = (if k \<in> F then AList.map_entry k f (filter (\<lambda>entry. fst entry \<in> F) al)
        else filter (\<lambda>entry. fst entry \<in> F) al)"
  by (induction al) auto

lemma map_of_filter_key:
  "map_of (filter (\<lambda>entry. fst entry \<in> F) al) k = (if k \<in> F then map_of al k else None)"
  by (induction al) auto

lemma filter_pushEndpoint:
  "filter (\<lambda>entry. fst entry \<in> F) (pushEndpoint mm t e)
     = (if t \<in> F then pushEndpoint (filter (\<lambda>entry. fst entry \<in> F) mm) t e
        else filter (\<lambda>entry. fst entry \<in> F) mm)"
  by (simp add: pushEndpoint_def Let_def filter_update filter_map_entry map_of_filter_key)

lemma filter_pushAll:
  "filter (\<lambda>entry. fst entry \<in> F) (pushAll mm pairs)
     = pushAll (filter (\<lambda>entry. fst entry \<in> F) mm) (filter (\<lambda>pair. fst pair \<in> F) pairs)"
proof (induction pairs arbitrary: mm)
  case Nil
  show ?case by (simp add: pushAll_Nil)
next
  case (Cons p pairs)
  show ?case by (simp add: pushAll_Cons Cons.IH filter_pushEndpoint)
qed

lemma mm_tag_toModule: "mm_tag (toModule schemas entry) = fst entry"
  by (simp add: toModule_def)

lemma filter_law:
  "fst (mapToModules schemas api (Some F))
     = filter (\<lambda>m. mm_tag m \<in> set F) (fst (mapToModules schemas api None))"
proof -
  have "filter (\<lambda>m. mm_tag m \<in> set F) (fst (mapToModules schemas api None))
        = map (toModule (extractSchemas schemas api))
              (filter (\<lambda>entry. fst entry \<in> set F) (pushAll [] (taggedEndpoints api)))"
    by (simp add: mapToModules_pushAll tagSelected_def filter_map comp_def mm_tag_toModule)
  also have "\<dots> = map (toModule (extractSchemas schemas api))
                       (pushAll [] (filter (\<lambda>pair. fst pair \<in> set F) (taggedEndpoints api)))"
    by (simp add: filter_pushAll)
  also have "\<dots> = fst (mapToModules schemas api (Some F))"
    by (simp add: mapToModules_pushAll tagSelected_def)
  finally show ?thesis by (rule sym)
qed

lemma addMethod_inferred:
  assumes "map_of pathItem method = Some operation"
    and "op_tags operation = None \<or> op_tags operation = Some []"
  shows "addMethod (Some F) path pathItem mm method
           = (if getTagFromPath path \<in> set F
              then pushEndpoint mm (getTagFromPath path) (mapEndpoint path (toUpperCase method) operation)
              else mm)"
proof -
  from assms(2) have "operationTags path operation = [getTagFromPath path]"
    by (auto simp: operationTags_def)
  with assms(1) show ?thesis
    by (simp add: addMethod_pushAll methodPairs_def tagSelected_def pushAll_Nil pushAll_Cons)
qed

lemma getTagFromPath_segments:
  "getTagFromPath path =
     (case pathSegments path of
        [] \<Rightarrow> ''Default''
      | seg # _ \<Rightarrow> capitalize (filter (\<lambda>c. c \<noteq> CHR ''{'' \<and> c \<noteq> CHR ''}'') seg))"
  by (simp add: getTagFromPath_def pathSegments_def Let_def split: list.splits)

text \<open>
  Claim C2. For every document and every tag filter \<open>F\<close>, the modules produced with
  \<open>F\<close> are the modules produced without a filter whose tag is in \<open>F\<close>, in the same
  order and with the same names, endpoints and referenced schemas. An operation that
  declares no tag goes under the single tag inferred from its path, and under the filter
  it is pushed exactly when that tag is in \<open>F\<close>. The inferred tag is the capitalized
  first non-empty segment of the path without its braces, or \<open>Default\<close>.
\<close>

theorem C2_filter_law:
  "fst (mapToModules schemas api (Some F))
     = filter (\<lambda>m. mm_tag m \<in> set F) (fst (mapToModules schemas api None))
   \<and> (map_of pathItem method = Some operation
        \<and> (op_tags operation = None \<or> op_tags operation = Some []) \<longrightarrow>
        addMethod (Some F) path pathItem mm method
          = (if getTagFromPath path \<in> set F
             then pushEndpoint mm (getTagFromPath path) (mapEndpoint path (toUpperCase method) operation)
             else mm))
   \<and> getTagFromPath path =
       (case pathSegments path of
          [] \<Rightarrow> ''Default''
        | seg # _ \<Rightarrow> capitalize (filter (\<lambda>c. c \<noteq> CHR ''{'' \<and> c \<noteq> CHR ''}'') seg))"
proof (intro conjI impI)
  show "fst (mapToModules schemas api (Some F))
     = filter (\<lambda>m. mm_tag m \<in> set F) (fst (mapToModules schemas api None))"
    by (rule filter_law)
  show "addMethod (Some F) path pathItem mm method
          = (if getTagFromPath path \<in> set F
             then pushEndpoint mm (getTagFromPath path) (mapEndpoint path (toUpperCase method) operation)
             else mm)"
    if "map_of pathItem method = Some operation
        \<and> (op_tags operation = None \<or> op_tags operation = Some [])"
    using that by (simp add: addMethod_inferred)
  show "getTagFromPath path =
       (case pathSegments path of
          [] \<Rightarrow> ''Default''
        | seg # _ \<Rightarrow> capitalize (filter (\<lambda>c. c \<noteq> CHR ''{'' \<and> c \<noteq> CHR ''}'') seg))"
    by (rule getTagFromPath_segments)
qed

lemma example_tags:
  "map mm_tag (fst (mapToModules [] exampleDocument None)) = [''Users'', ''Products'', ''Admin'']"
  by code_simp

theorem C2_filter_law_witness:
  "fst (mapToModules [] exampleDocument (Some [''Products'']))
     = filter (\<lambda>m. mm_tag m \<in> set [''Products'']) (fst (mapToModules [] exampleDocument None))
   \<and> map mm_tag (fst (mapToModules [] exampleDocument None)) = [''Users'', ''Products'', ''Admin'']
   \<and> map mm_tag (fst (mapToModules [] exampleDocument (Some [''Products'']))) = [''Products'']
   \<and> map_of [(''get'', exampleOperation None None)] ''get'' = Some (exampleOperation None None)
   \<and> op_tags (exampleOperation None None) = None
   \<and> getTagFromPath ''/products'' = ''Products''
   \<and> addMethod (Some [''Products'']) ''/products'' [(''get'', exampleOperation None None)] [] ''get''
       = pushEndpoint [] ''Products'' (mapEndpoint ''/products'' (toUpperCase ''get'') (exampleOperation None None))
   \<and> addMethod (Some [''Users'']) ''/products'' [(''get'', exampleOperation None None)] [] ''get'' = []"
proof -
  have law: "fst (mapToModules [] exampleDocument (Some [''Products'']))
     = filter (\<lambda>m. mm_tag m \<in> set [''Products'']) (fst (mapToModules [] exampleDocument None))"
    using C2_filter_law [of "[]" exampleDocument "[''Products'']"] by blast
  have "map mm_tag (filter (\<lambda>m. mm_tag m \<in> set [''Products''])
                              (fst (mapToModules [] exampleDocument None)))
        = filter (\<lambda>t. t \<in> set [''Products'']) (map mm_tag (fst (mapToModules [] exampleDocument None)))"
    by (simp only: filter_map comp_def)
  also have "\<dots> = [''Products'']"
    by (simp add: example_tags)
  finally have sel: "map mm_tag (fst (mapToModules [] exampleDocument (Some [''Products'']))) = [''Products'']"
    by (simp only: law)
  have op: "map_of [(''get'', exampleOperation None None)] ''get'' = Some (exampleOperation None None)"
    and none: "op_tags (exampleOperation None None) = None"
    by (simp_all add: exampleOperation_def)
  have tag: "getTagFromPath ''/products'' = ''Products''"
    by code_simp
  from op none tag
    C2_filter_law [of "[]" exampleDocument "[''Products'']" "[(''get'', exampleOperation None None)]" "''get''"
           "exampleOperation None None" "''/products''" "[]"]
  have a: "addMethod (Some [''Products'']) ''/products'' [(''get'', exampleOperation None None)] [] ''get''
       = pushEndpoint [] ''Products'' (mapEndpoint ''/products'' (toUpperCase ''get'') (exampleOperation None None))"
    by simp
  from op none tag
    C2_filter_law [of "[]" exampleDocument "[''Users'']" "[(''get'', exampleOperation None None)]" "''get''"
           "exampleOperation None None" "''/products''" "[]"]
  have b: "addMethod (Some [''Users'']) ''/products'' [(''get'', exampleOperation None None)] [] ''get'' = []"
    by simp
  from law example_tags sel op none tag a b show ?thesis by blast
qed



lemma map_of_pushEndpoint:
  "map_of (pushEndpoint mm t e)
     = (map_of mm)(t \<mapsto> (case map_of mm t of None \<Rightarrow> [] | Some eps \<Rightarrow> eps) @ [e])"
  by (auto simp: pushEndpoint_def Let_def map_of_map_entry update_conv' split: option.splits)

lemma map_of_pushAll:
  "map_of (pushAll mm pairs) t
     = (if endpointsTagged t pairs = [] then map_of mm t
        else Some ((case map_of mm t of None \<Rightarrow> [] | Some eps \<Rightarrow> eps) @ endpointsTagged t pairs))"
proof (induction pairs arbitrary: mm)
  case Nil
  show ?case by (simp add: pushAll_Nil endpointsTagged_def)
next
  case (Cons p pairs)
  show ?case
    by (simp add: pushAll_Cons Cons.IH map_of_pushEndpoint endpointsTagged_def split: option.splits)
qed

lemma distinct_pushEndpoint:
  "distinct (map fst mm) \<Longrightarrow> distinct (map fst (pushEndpoint mm t e))"
  by (simp add: pushEndpoint_def Let_def distinct_map_entry distinct_update)

lemma distinct_pushAll:
  "distinct (map fst mm) \<Longrightarrow> distinct (map fst (pushAll mm pairs))"
  by (induction pairs arbitrary: mm) (simp_all add: pushAll_Nil pushAll_Cons distinct_pushEndpoint)

lemma keys_pushEndpoint: "fst ` set (pushEndpoint mm t e) = insert t (fst ` set mm)"
proof (cases "map_of mm t")
  case None
  then show ?thesis by (simp add: pushEndpoint_def dom_map_entry dom_update)
next
  case (Some eps)
  then have "(t, eps) \<in> set mm" by (rule map_of_SomeD)
  then have "t \<in> fst ` set mm" by (rule rev_image_eqI) simp
  with Some show ?thesis by (auto simp: pushEndpoint_def dom_map_entry)
qed

lemma keys_pushAll: "fst ` set (pushAll mm pairs) = fst ` set mm \<union> fst ` set pairs"
  by (induction pairs arbitrary: mm) (auto simp: pushAll_Nil pushAll_Cons keys_pushEndpoint)

lemma pushAll_entry:
  assumes "entry \<in> set (pushAll [] pairs)"
  shows "snd entry = endpointsTagged (fst entry) pairs \<and> snd entry \<noteq> []"
proof -
  have "distinct (map fst (pushAll [] pairs))" by (rule distinct_pushAll) simp
  moreover from assms have "(fst entry, snd entry) \<in> set (pushAll [] pairs)" by simp
  ultimately have "map_of (pushAll [] pairs) (fst entry) = Some (snd entry)"
    by (simp only: map_of_eq_Some_iff)
  then show ?thesis by (simp add: map_of_pushAll split: if_splits)
qed

lemma no_filter_modules:
  "fst (mapToModules schemas api None)
     = map (toModule (extractSchemas schemas api)) (pushAll [] (taggedEndpoints api))"
  by (simp add: mapToModules_pushAll tagSelected_def)

text \<open>
  Claim C10. With the empty list as filter the mapper returns no module. With no filter
  it returns one module for each effective tag of the document, each holding exactly the
  endpoints that carry the tag, in document order, and none of them empty.
\<close>

theorem C10_empty_filter_selects_nothing:
  "fst (mapToModules schemas api (Some [])) = []
   \<and> distinct (map mm_tag (fst (mapToModules schemas api None)))
   \<and> set (map mm_tag (fst (mapToModules schemas api None))) = fst ` set (taggedEndpoints api)
   \<and> map mm_endpoints (fst (mapToModules schemas api None))
       = map (\<lambda>m. endpointsTagged (mm_tag m) (taggedEndpoints api)) (fst (mapToModules schemas api None))
   \<and> [] \<notin> set (map mm_endpoints (fst (mapToModules schemas api None)))"
proof (intro conjI)
  show "fst (mapToModules schemas api (Some [])) = []"
    by (simp add: mapToModules_pushAll tagSelected_def pushAll_Nil)
  have tags: "map mm_tag (fst (mapToModules schemas api None)) = map fst (pushAll [] (taggedEndpoints api))"
    by (simp add: no_filter_modules comp_def mm_tag_toModule)
  show "distinct (map mm_tag (fst (mapToModules schemas api None)))"
    unfolding tags by (rule distinct_pushAll) simp
  show "set (map mm_tag (fst (mapToModules schemas api None))) = fst ` set (taggedEndpoints api)"
    unfolding tags by (simp add: keys_pushAll)
  show "map mm_endpoints (fst (mapToModules schemas api None))
         = map (\<lambda>m. endpointsTagged (mm_tag m) (taggedEndpoints api)) (fst (mapToModules schemas api None))"
    unfolding no_filter_modules
    by (simp add: toModule_def pushAll_entry)
  show "[] \<notin> set (map mm_endpoints (fst (mapToModules schemas api None)))"
    unfolding no_filter_modules
    by (auto simp: toModule_def dest: pushAll_entry)
qed


theorem C10_empty_filter_selects_nothing_witness:
  "fst (mapToModules [] exampleDocument (Some [])) = []
   \<and> map mm_tag (fst (mapToModules [] exampleDocument None)) = [''Users'', ''Products'', ''Admin'']
   \<and> fst (mapToModules [] exampleDocument (Some [])) \<noteq> fst (mapToModules [] exampleDocument None)
   \<and> distinct (map mm_tag (fst (mapToModules [] exampleDocument None)))"
proof -
  from C10_empty_filter_selects_nothing [of "[]" exampleDocument]
  have e: "fst (mapToModules [] exampleDocument (Some [])) = []"
    and d: "distinct (map mm_tag (fst (mapToModules [] exampleDocument None)))"
    by blast+
  from example_tags have "fst (mapToModules [] exampleDocument None) \<noteq> []" by auto
  with e d example_tags show ?thesis by simp
qed

end
